theory Spec2Isabelle
  imports Complex_Main
begin

section \<open>Bathymetry notebook: masking a labelled array\<close>

text \<open>
  \<^verbatim>\<open>06_Bathy_Explorer.ipynb\<close> selects a subset of the ETOPO1 grid and masks it:
  \<^verbatim>\<open>
  na = na.where(na<0)
  na = na.where(na>-1000)
  \<close>
  A labelled two-dimensional array is a record of its two coordinate vectors and its
  rows of values. A value is \<open>Some v\<close>, or \<open>None\<close> for the missing value (NaN):
  every comparison with NaN is false, which is what the arms for \<open>None\<close> say.
\<close>

record 'a DataArray =
  lon :: "real list"
  lat :: "real list"
  vals :: "'a list list"

text \<open>\<^verbatim>\<open>na < c\<close> and \<^verbatim>\<open>na > c\<close>: a boolean array on the same coordinates.\<close>

definition lt_scalar :: "real option DataArray \<Rightarrow> real \<Rightarrow> bool DataArray" where
  "lt_scalar na c =
     \<lparr>lon = lon na, lat = lat na,
      vals = map (map (\<lambda>v. case v of None \<Rightarrow> False | Some x \<Rightarrow> x < c)) (vals na)\<rparr>"

definition gt_scalar :: "real option DataArray \<Rightarrow> real \<Rightarrow> bool DataArray" where
  "gt_scalar na c =
     \<lparr>lon = lon na, lat = lat na,
      vals = map (map (\<lambda>v. case v of None \<Rightarrow> False | Some x \<Rightarrow> c < x)) (vals na)\<rparr>"

text \<open>
  \<^verbatim>\<open>na.where(cond)\<close> with the default \<^verbatim>\<open>other\<close> and \<^verbatim>\<open>drop=False\<close>: the value where
  the condition holds, missing elsewhere, on the coordinates of \<open>na\<close>. The condition is
  paired with the values position by position.
\<close>

definition where_cond :: "real option DataArray \<Rightarrow> bool DataArray \<Rightarrow> real option DataArray" where
  "where_cond na cond =
     \<lparr>lon = lon na, lat = lat na,
      vals = map2 (map2 (\<lambda>v b. if b then v else None)) (vals na) (vals cond)\<rparr>"

text \<open>The two statements of the cell, in their order.\<close>

definition mask_bathy :: "real option DataArray \<Rightarrow> real option DataArray" where
  "mask_bathy na =
     (let na1 = where_cond na (lt_scalar na 0);
          na2 = where_cond na1 (gt_scalar na1 (- 1000))
      in na2)"

definition shape :: "'a DataArray \<Rightarrow> nat list" where
  "shape na = map length (vals na)"

text \<open>What the two steps do to one value.\<close>

definition keep_shelf :: "real option \<Rightarrow> real option" where
  "keep_shelf v =
     (case v of None \<Rightarrow> None
      | Some x \<Rightarrow> if - 1000 < x \<and> x < 0 then Some x else None)"

section \<open>ERDDAP notebook: catalogue search and the per-dataset loop\<close>

text \<open>
  \<^verbatim>\<open>05_ERDDAP_access.ipynb\<close>, read as the script its code cells make from top to bottom:
  an exception that no \<^verbatim>\<open>try\<close> catches ends the run. The erddapy client, pandas'
  CSV reader, xarray and the plotting library are not code of the repository; their calls
  are fields of the record \<open>external\<close>, each a function of its arguments that returns
  a value or raises. Everything the cells themselves do (assignments to the client,
  indexing, the \<^verbatim>\<open>try\<close>/\<^verbatim>\<open>except\<close>, appending to the lists, building the
  \<^verbatim>\<open>allDatasets\<close> URL, selecting columns and rows) is written out.
\<close>

subsection \<open>Exceptions\<close>

datatype error =
    IndexError
  | KeyError string
  | ValueError
  | TypeError
  | AttributeError
  | HTTPError
  | ParserError
  | OtherError string

definition bindE :: "error + 'a \<Rightarrow> ('a \<Rightarrow> error + 'b) \<Rightarrow> error + 'b" where
  "bindE r f = (case r of Inl e \<Rightarrow> Inl e | Inr x \<Rightarrow> f x)"

subsection \<open>Tables\<close>

text \<open>
  A data frame: column names, row labels and rows of cells. A cell is a string, a number
  or the missing value.
\<close>

datatype cell = Str string | Num real | NaN

record DataFrame =
  columns :: "string list"
  index :: "int list"
  rows :: "cell list list"

fun column_pos :: "string list \<Rightarrow> string \<Rightarrow> nat option" where
  "column_pos [] name = None"
| "column_pos (c # cs) name =
     (if c = name then Some 0 else map_option Suc (column_pos cs name))"

text \<open>A row shorter than the header reads as missing in the columns it lacks.\<close>

definition nth_cell :: "cell list \<Rightarrow> nat \<Rightarrow> cell" where
  "nth_cell r i = (if i < length r then r ! i else NaN)"

text \<open>\<^verbatim>\<open>df[name]\<close> and then \<^verbatim>\<open>.values\<close>: the cells of one column, top to bottom.\<close>

definition getitem_col :: "DataFrame \<Rightarrow> string \<Rightarrow> error + cell list" where
  "getitem_col df name =
     (case column_pos (columns df) name of
        None \<Rightarrow> Inl (KeyError name)
      | Some i \<Rightarrow> Inr (map (\<lambda>r. nth_cell r i) (rows df)))"

text \<open>\<^verbatim>\<open>df[[n1, n2, ...]]\<close>: the named columns in the order asked, every row kept.\<close>

fun positions :: "string list \<Rightarrow> string list \<Rightarrow> error + nat list" where
  "positions cs [] = Inr []"
| "positions cs (name # names) =
     (case column_pos cs name of
        None \<Rightarrow> Inl (KeyError name)
      | Some i \<Rightarrow> bindE (positions cs names) (\<lambda>js. Inr (i # js)))"

definition getitem_cols :: "DataFrame \<Rightarrow> string list \<Rightarrow> error + DataFrame" where
  "getitem_cols df names =
     bindE (positions (columns df) names)
       (\<lambda>js. Inr \<lparr>columns = names, index = index df,
                  rows = map (\<lambda>r. map (nth_cell r) js) (rows df)\<rparr>)"

text \<open>
  \<^verbatim>\<open>col.str.contains(pat)\<close>. The pattern of the notebook, \<^verbatim>\<open>"ctdbp"\<close>, has no regular
  expression operator, so the match is a substring test. The accessor exists on a column
  of strings only (an empty column is one); a cell that is no string gives the missing
  value.
\<close>

fun is_prefix :: "string \<Rightarrow> string \<Rightarrow> bool" where
  "is_prefix [] s = True"
| "is_prefix (p # ps) [] = False"
| "is_prefix (p # ps) (c # cs) = (p = c \<and> is_prefix ps cs)"

fun contains :: "string \<Rightarrow> string \<Rightarrow> bool" where
  "contains [] pat = (pat = [])"
| "contains (c # cs) pat = (is_prefix pat (c # cs) \<or> contains cs pat)"

fun is_Str :: "cell \<Rightarrow> bool" where
  "is_Str (Str _) = True"
| "is_Str _ = False"

definition str_contains :: "cell list \<Rightarrow> string \<Rightarrow> error + bool option list" where
  "str_contains col pat =
     (if col = [] \<or> list_ex is_Str col
      then Inr (map (\<lambda>c. case c of Str x \<Rightarrow> Some (contains x pat) | _ \<Rightarrow> None) col)
      else Inl AttributeError)"

text \<open>\<^verbatim>\<open>df[mask]\<close>: a mask with a missing value is refused; else the rows marked true.\<close>

definition getitem_mask :: "DataFrame \<Rightarrow> bool option list \<Rightarrow> error + DataFrame" where
  "getitem_mask df cond =
     (if list_ex (\<lambda>b. b = None) cond then Inl ValueError
      else let keep = filter (\<lambda>(b, x). b = Some True) (zip cond (zip (index df) (rows df)))
           in Inr \<lparr>columns = columns df, index = map (fst \<circ> snd) keep,
                   rows = map (snd \<circ> snd) keep\<rparr>)"

text \<open>\<^verbatim>\<open>df.reset_index()\<close>: the old row labels become the first column.\<close>

definition reset_index :: "DataFrame \<Rightarrow> error + DataFrame" where
  "reset_index df =
     (let name = (if ''index'' \<in> set (columns df) then ''level_0'' else ''index'')
      in if name \<in> set (columns df) then Inl ValueError
         else Inr \<lparr>columns = name # columns df,
                   index = map int [0 ..< length (rows df)],
                   rows = map2 (\<lambda>i r. Num (of_int i) # r) (index df) (rows df)\<rparr>)"

text \<open>\<^verbatim>\<open>col.isin(values)\<close>.\<close>

definition isin :: "cell list \<Rightarrow> cell list \<Rightarrow> bool option list" where
  "isin col values = map (\<lambda>c. Some (c \<in> set values)) col"

subsection \<open>The client, the libraries and the state of the run\<close>

text \<open>
  The erddapy client object with the attributes the notebook reads and writes;
  \<^verbatim>\<open>ERDDAP(server=..., protocol=...)\<close> leaves the other attributes at their defaults.
\<close>

record ERDDAP =
  server :: string
  protocol :: string
  dataset_id :: "string option"
  variables :: "string list option"
  constraints :: "(string \<times> string) list option"
  response :: string

definition ERDDAP_init :: "string \<Rightarrow> string \<Rightarrow> ERDDAP" where
  "ERDDAP_init srv proto =
     \<lparr>server = srv, protocol = proto, dataset_id = None, variables = None,
      constraints = None, response = ''html''\<rparr>"

text \<open>What goes out to the network, in the order it goes.\<close>

datatype event =
    Urlopen string
  | Get_var_by_attr string string string
  | To_xarray ERDDAP

datatype printed = PStr string | PInt int

text \<open>
  The library calls. \<open>get_var_by_attr srv d tag\<close> is the client's metadata query for
  dataset \<open>d\<close> on server \<open>srv\<close>: the names of the variables whose \<^verbatim>\<open>standard_name\<close> is
  \<open>tag\<close>, in the order the library gives them. \<open>to_xarray c\<close> is the data request of a
  client configured as \<open>c\<close>. \<open>hvplot ds v l\<close> is \<^verbatim>\<open>ds[v].hvplot(label=l)\<close>.
  \<open>read_csv body skiprows\<close> is pandas' reader with the rows to skip.

  Three things are taken for granted about them. A call is answered by its arguments
  alone: the services answer a request the same way all through a run. The metadata
  query depends on the client through its server only. And a call changes none of the
  six attributes of the client above (what the library keeps in private attributes of
  the object is left out).
\<close>

record ('body, 'ds, 'plot) external =
  get_search_url :: "ERDDAP \<Rightarrow> string \<Rightarrow> (string \<times> cell) list \<Rightarrow> string"
  get_download_url :: "ERDDAP \<Rightarrow> error + string"
  get_var_by_attr :: "string \<Rightarrow> string \<Rightarrow> string \<Rightarrow> error + string list"
  to_xarray :: "ERDDAP \<Rightarrow> error + 'ds"
  urlopen :: "string \<Rightarrow> error + 'body"
  read_csv :: "'body \<Rightarrow> nat list \<Rightarrow> error + DataFrame"
  hvplot :: "'ds \<Rightarrow> string \<Rightarrow> string \<Rightarrow> error + 'plot"
  hvplot_grid :: "'ds \<Rightarrow> error + 'plot"
  hvplot_points :: "DataFrame \<Rightarrow> error + 'plot"
  overlay :: "'plot list \<Rightarrow> error + 'plot"

text \<open>
  The variables of the run that are mutated in place (the client and the two lists),
  with the requests issued and the lines printed so far.
\<close>

record ('ds, 'plot) notebook =
  client :: ERDDAP
  df_list :: "'ds list"
  hv_list :: "'plot list"
  events :: "event list"
  stdout :: "printed list"

type_synonym ('a, 'ds, 'plot) prog =
  "('ds, 'plot) notebook \<Rightarrow> (error + 'a) \<times> ('ds, 'plot) notebook"

text \<open>Sequencing: an exception of the first part ends the whole.\<close>

definition then_do :: "('a, 'ds, 'plot) prog \<Rightarrow> ('a \<Rightarrow> ('b, 'ds, 'plot) prog) \<Rightarrow> ('b, 'ds, 'plot) prog" where
  "then_do m f s = (case m s of (Inl e, s') \<Rightarrow> (Inl e, s') | (Inr x, s') \<Rightarrow> f x s')"

definition lift :: "error + 'a \<Rightarrow> ('a, 'ds, 'plot) prog" where
  "lift r s = (r, s)"

subsection \<open>Catalogue search\<close>

text \<open>
  \<^verbatim>\<open>
  search_url = ooi.get_search_url(response='csv', **kw)
  search_df = pd.read_csv(urlopen(search_url))
  search_df = search_df[['Institution', 'Dataset ID','tabledap']]
  \<close>
\<close>

definition search :: "('body, 'ds, 'plot) external \<Rightarrow> (string \<times> cell) list \<Rightarrow> (DataFrame, 'ds, 'plot) prog" where
  "search ext kw s =
     (let search_url = get_search_url ext (client s) ''csv'' kw;
          s1 = s\<lparr>events := events s @ [Urlopen search_url]\<rparr>
      in (bindE (urlopen ext search_url) (\<lambda>body.
          bindE (read_csv ext body []) (\<lambda>search_df.
          getitem_cols search_df [''Institution'', ''Dataset ID'', ''tabledap''])), s1))"

text \<open>
  \<^verbatim>\<open>
  def alllonlat(e, cdm_data_type, min_time, max_time):
      url='{}/tabledap/allDatasets.csv?datasetID%2CminLongitude%2CminLatitude&cdm_data_type=%22{}%22&minTime%3C={}&maxTime%3E={}'.format(e.server,
                          cdm_data_type,max_time,min_time)
      print(url)
      df = pd.read_csv(urlopen(url), skiprows=[1])
      return df
  \<close>
\<close>

definition alllonlat_url :: "string \<Rightarrow> string \<Rightarrow> string \<Rightarrow> string \<Rightarrow> string" where
  "alllonlat_url srv cdm_data_type min_time max_time =
     srv @ ''/tabledap/allDatasets.csv?datasetID%2CminLongitude%2CminLatitude&cdm_data_type=%22''
         @ cdm_data_type @ ''%22&minTime%3C='' @ max_time @ ''&maxTime%3E='' @ min_time"

definition alllonlat :: "('body, 'ds, 'plot) external \<Rightarrow> ERDDAP \<Rightarrow> string \<Rightarrow> string \<Rightarrow> string \<Rightarrow> (DataFrame, 'ds, 'plot) prog" where
  "alllonlat ext e cdm_data_type min_time max_time s =
     (let url = alllonlat_url (server e) cdm_data_type min_time max_time;
          s1 = s\<lparr>stdout := stdout s @ [PStr url]\<rparr>;
          s2 = s1\<lparr>events := events s1 @ [Urlopen url]\<rparr>
      in (bindE (urlopen ext url) (\<lambda>body. read_csv ext body [1]), s2))"

subsection \<open>The per-dataset loop\<close>

text \<open>
  \<^verbatim>\<open>
  df_list = []
  hv_list = []
  for dataset_id in ctdbp['Dataset ID'].values:
      ooi.dataset_id = dataset_id
      ooi.variables = [
          'time',
          ooi.get_var_by_attr(dataset_id=dataset_id,  standard_name=standard_name)[0]
      ]
      try:
          ds = ooi.to_xarray(decode_times=True)
          df_list.append(ds)
          print(dataset_id)
          hv_list.append(ds[ooi.variables[-1]].hvplot(label=dataset_id))
      except:
          pass
  \<close>
  The loop over the IOOS server is the same text with \<^verbatim>\<open>ioos\<close> for \<^verbatim>\<open>ooi\<close> and
  \<^verbatim>\<open>search_df\<close> for \<^verbatim>\<open>ctdbp\<close>; \<open>client\<close> is then that object.
\<close>

text \<open>\<^verbatim>\<open>get_var_by_attr(dataset_id=d, standard_name=tag)[0]\<close>: index 0 of the match list.\<close>

definition resolve_variable :: "('body, 'ds, 'plot) external \<Rightarrow> string \<Rightarrow> string \<Rightarrow> string \<Rightarrow> error + string" where
  "resolve_variable ext srv dataset_id' standard_name =
     bindE (get_var_by_attr ext srv dataset_id' standard_name)
       (\<lambda>matches. case matches of [] \<Rightarrow> Inl IndexError | v # _ \<Rightarrow> Inr v)"

text \<open>\<^verbatim>\<open>ooi.variables[-1]\<close>.\<close>

definition last_variable :: "ERDDAP \<Rightarrow> error + string" where
  "last_variable c =
     (case variables c of
        None \<Rightarrow> Inl TypeError
      | Some vs \<Rightarrow> if vs = [] then Inl IndexError else Inr (last vs))"

text \<open>
  The \<^verbatim>\<open>try\<close> block with its \<^verbatim>\<open>except: pass\<close>: whatever raises inside ends the
  block, and what the block did before stays done.
\<close>

definition try_fetch :: "('body, 'ds, 'plot) external \<Rightarrow> string \<Rightarrow> ('ds, 'plot) notebook \<Rightarrow> ('ds, 'plot) notebook" where
  "try_fetch ext dataset_id' s =
     (let s1 = s\<lparr>events := events s @ [To_xarray (client s)]\<rparr>
      in case to_xarray ext (client s) of
           Inl e \<Rightarrow> s1
         | Inr ds \<Rightarrow>
             (let s2 = s1\<lparr>df_list := df_list s1 @ [ds]\<rparr>;
                  s3 = s2\<lparr>stdout := stdout s2 @ [PStr dataset_id']\<rparr>
              in case bindE (last_variable (client s3)) (\<lambda>v. hvplot ext ds v dataset_id') of
                   Inl e \<Rightarrow> s3
                 | Inr p \<Rightarrow> s3\<lparr>hv_list := hv_list s3 @ [p]\<rparr>))"

text \<open>One pass of the loop body: the two assignments, which no \<^verbatim>\<open>try\<close> covers, then the block.\<close>

definition loop_body :: "('body, 'ds, 'plot) external \<Rightarrow> string \<Rightarrow> string \<Rightarrow> (unit, 'ds, 'plot) prog" where
  "loop_body ext standard_name dataset_id' s =
     (let s1 = s\<lparr>client := (client s)\<lparr>dataset_id := Some dataset_id'\<rparr>\<rparr>;
          s2 = s1\<lparr>events := events s1 @ [Get_var_by_attr (server (client s1)) dataset_id' standard_name]\<rparr>
      in case resolve_variable ext (server (client s1)) dataset_id' standard_name of
           Inl e \<Rightarrow> (Inl e, s2)
         | Inr v \<Rightarrow>
             (Inr (), try_fetch ext dataset_id'
                        (s2\<lparr>client := (client s2)\<lparr>variables := Some [''time'', v]\<rparr>\<rparr>)))"

fun fetch_loop :: "('body, 'ds, 'plot) external \<Rightarrow> string \<Rightarrow> string list \<Rightarrow> (unit, 'ds, 'plot) prog" where
  "fetch_loop ext standard_name [] s = (Inr (), s)"
| "fetch_loop ext standard_name (dataset_id' # rest) s =
     (case loop_body ext standard_name dataset_id' s of
        (Inl e, s') \<Rightarrow> (Inl e, s')
      | (Inr _, s') \<Rightarrow> fetch_loop ext standard_name rest s')"

text \<open>The cell: both lists start empty, then the loop.\<close>

definition fetchAll :: "('body, 'ds, 'plot) external \<Rightarrow> string \<Rightarrow> string list \<Rightarrow> (unit, 'ds, 'plot) prog" where
  "fetchAll ext standard_name ids s =
     fetch_loop ext standard_name ids (s\<lparr>df_list := [], hv_list := []\<rparr>)"

text \<open>
  The cell as it stands in the notebook: the lists are emptied, then the column of
  identifiers is read from the filtered table and looped over. The identifiers are the
  strings of that column; the filter before it keeps no cell that is not a string.
\<close>

definition strings_of :: "cell list \<Rightarrow> string list" where
  "strings_of col = concat (map (\<lambda>c. case c of Str x \<Rightarrow> [x] | _ \<Rightarrow> []) col)"

definition fetch_cell :: "('body, 'ds, 'plot) external \<Rightarrow> string \<Rightarrow> DataFrame \<Rightarrow> (unit, 'ds, 'plot) prog" where
  "fetch_cell ext standard_name ctdbp s =
     (let s0 = s\<lparr>df_list := [], hv_list := []\<rparr>
      in case getitem_col ctdbp ''Dataset ID'' of
           Inl e \<Rightarrow> (Inl e, s0)
         | Inr col \<Rightarrow> fetch_loop ext standard_name (strings_of col) s0)"

subsection \<open>The other cells of the OOI part\<close>

text \<open>
  \<^verbatim>\<open>
  min_time = '2018-07-01T00:00:00Z'
  max_time = '2018-07-15T00:00:00Z'
  min_lon, max_lon = -127, -122
  min_lat, max_lat = 44, 48
  standard_name = 'sea_water_practical_salinity'
  cdm_data_type = 'timeseries'
  kw = {'standard_name': standard_name,
        'min_lon': min_lon,'max_lon': max_lon,'min_lat': min_lat,'max_lat': max_lat,
        'min_time': min_time,'max_time': max_time, 'cdm_data_type':cdm_data_type}
  \<close>
\<close>

definition ooi_server :: string where
  "ooi_server = ''http://erddap.dataexplorer.oceanobservatories.org/erddap''"

definition min_time :: string where
  "min_time = ''2018-07-01T00:00:00Z''"

definition max_time :: string where
  "max_time = ''2018-07-15T00:00:00Z''"

definition standard_name :: string where
  "standard_name = ''sea_water_practical_salinity''"

definition cdm_data_type :: string where
  "cdm_data_type = ''timeseries''"

definition kw :: "(string \<times> cell) list" where
  "kw = [(''standard_name'', Str standard_name),
         (''min_lon'', Num (- 127)), (''max_lon'', Num (- 122)),
         (''min_lat'', Num 44), (''max_lat'', Num 48),
         (''min_time'', Str min_time), (''max_time'', Str max_time),
         (''cdm_data_type'', Str cdm_data_type)]"

text \<open>\<^verbatim>\<open>ooi = ERDDAP(server=server, protocol=protocol)\<close>, nothing requested or printed yet.\<close>

definition start :: "('ds, 'plot) notebook" where
  "start = \<lparr>client = ERDDAP_init ooi_server ''tabledap'', df_list = [], hv_list = [],
            events = [], stdout = []\<rparr>"

text \<open>\<^verbatim>\<open>df = pd.read_csv(urlopen(ooi.get_search_url(response='csv', search_for='all')))\<close>\<close>

definition search_all :: "('body, 'ds, 'plot) external \<Rightarrow> (DataFrame, 'ds, 'plot) prog" where
  "search_all ext s =
     (let url = get_search_url ext (client s) ''csv'' [(''search_for'', Str ''all'')];
          s1 = s\<lparr>events := events s @ [Urlopen url]\<rparr>
      in (bindE (urlopen ext url) (\<lambda>body. read_csv ext body []), s1))"

text \<open>
  Reading one dataset by hand:
  \<^verbatim>\<open>
  ooi.dataset_id = dataset_id
  ooi.constraints = {'time>=': min_time,'time<=': max_time}
  ooi.response='csv'
  ooi.variables = [ 'time', ooi.get_var_by_attr(dataset_id=dataset_id, standard_name=standard_name)[0]]
  print(ooi.get_download_url())
  ds = ooi.to_xarray(decode_times=True)
  ds.sea_water_practical_salinity.hvplot(grid=True)
  \<close>
\<close>

definition read_one :: "('body, 'ds, 'plot) external \<Rightarrow> string \<Rightarrow> ('ds, 'ds, 'plot) prog" where
  "read_one ext dataset_id' s =
     (let s1 = s\<lparr>client := (client s)\<lparr>dataset_id := Some dataset_id',
                     constraints := Some [(''time>='', min_time), (''time<='', max_time)],
                     response := ''csv''\<rparr>\<rparr>;
          s2 = s1\<lparr>events := events s1 @ [Get_var_by_attr (server (client s1)) dataset_id' standard_name]\<rparr>
      in case resolve_variable ext (server (client s1)) dataset_id' standard_name of
           Inl e \<Rightarrow> (Inl e, s2)
         | Inr v \<Rightarrow>
             (let s3 = s2\<lparr>client := (client s2)\<lparr>variables := Some [''time'', v]\<rparr>\<rparr>
              in case get_download_url ext (client s3) of
                   Inl e \<Rightarrow> (Inl e, s3)
                 | Inr url \<Rightarrow>
                     (let s4 = s3\<lparr>stdout := stdout s3 @ [PStr url]\<rparr>;
                          s5 = s4\<lparr>events := events s4 @ [To_xarray (client s4)]\<rparr>
                      in (bindE (to_xarray ext (client s4))
                            (\<lambda>ds. bindE (hvplot_grid ext ds) (\<lambda>_. Inr ds)), s5))))"

text \<open>
  \<^verbatim>\<open>
  ctdbp = search_df[search_df['Dataset ID'].str.contains("ctdbp")].reset_index()
  print(len(ctdbp))
  \<close>
\<close>

definition select_ctdbp :: "DataFrame \<Rightarrow> error + DataFrame" where
  "select_ctdbp search_df =
     bindE (getitem_col search_df ''Dataset ID'') (\<lambda>col.
     bindE (str_contains col ''ctdbp'') (\<lambda>cond.
     bindE (getitem_mask search_df cond) reset_index))"

definition ctdbp_cell :: "DataFrame \<Rightarrow> (DataFrame, 'ds, 'plot) prog" where
  "ctdbp_cell search_df s =
     (case select_ctdbp search_df of
        Inl e \<Rightarrow> (Inl e, s)
      | Inr ctdbp \<Rightarrow> (Inr ctdbp, s\<lparr>stdout := stdout s @ [PInt (int (length (rows ctdbp)))]\<rparr>))"

text \<open>
  \<^verbatim>\<open>
  dfll = alllonlat(ooi, 'TimeSeries', min_time, max_time)
  dfr = dfll[dfll['datasetID'].isin(search_df['Dataset ID'])]
  \<close>
\<close>

definition matching_rows :: "DataFrame \<Rightarrow> DataFrame \<Rightarrow> error + DataFrame" where
  "matching_rows dfll search_df =
     bindE (getitem_col dfll ''datasetID'') (\<lambda>col.
     bindE (getitem_col search_df ''Dataset ID'') (\<lambda>col'.
     getitem_mask dfll (isin col col')))"

text \<open>The code cells of the OOI part, top to bottom.\<close>

definition run_ooi :: "('body, 'ds, 'plot) external \<Rightarrow> (error + unit) \<times> ('ds, 'plot) notebook" where
  "run_ooi ext =
     then_do (search_all ext) (\<lambda>df.
     then_do (search ext kw) (\<lambda>search_df.
     then_do (read_one ext ''ooi-ce01issm-sbd17-06-ctdbpc000'') (\<lambda>ds.
     then_do (ctdbp_cell search_df) (\<lambda>ctdbp.
     then_do (\<lambda>s. alllonlat ext (client s) ''TimeSeries'' min_time max_time s) (\<lambda>dfll.
     then_do (lift (matching_rows dfll search_df)) (\<lambda>dfr.
     then_do (lift (hvplot_points ext dfr)) (\<lambda>_.
     then_do (fetch_cell ext standard_name ctdbp) (\<lambda>_.
     then_do (\<lambda>s. (overlay ext (hv_list s), s)) (\<lambda>_.
     lift (Inr ())))))))))) start"

section \<open>Functions the statements are written with\<close>

text \<open>
  The client as the loop has configured it when it asks for the data of dataset \<open>d\<close>
  with variable \<open>v\<close>.
\<close>

definition client_for :: "ERDDAP \<Rightarrow> string \<Rightarrow> string \<Rightarrow> ERDDAP" where
  "client_for c d v = c\<lparr>dataset_id := Some d, variables := Some [''time'', v]\<rparr>"

text \<open>Two clients that differ in \<open>dataset_id\<close> and \<open>variables\<close> at most.\<close>

definition same_config :: "ERDDAP \<Rightarrow> ERDDAP \<Rightarrow> bool" where
  "same_config c c' =
     (c'\<lparr>dataset_id := None, variables := None\<rparr> = c\<lparr>dataset_id := None, variables := None\<rparr>)"

text \<open>
  What the libraries answer for one dataset, read off the answers alone: whether its
  variable resolves, the series its data request gives, the plot made of it, and the
  requests that go out for it.
\<close>

definition resolves :: "('body, 'ds, 'plot) external \<Rightarrow> string \<Rightarrow> ERDDAP \<Rightarrow> string \<Rightarrow> bool" where
  "resolves ext tag c d =
     (case resolve_variable ext (server c) d tag of Inl _ \<Rightarrow> False | Inr _ \<Rightarrow> True)"

definition series_of :: "('body, 'ds, 'plot) external \<Rightarrow> string \<Rightarrow> ERDDAP \<Rightarrow> string \<Rightarrow> 'ds option" where
  "series_of ext tag c d =
     (case resolve_variable ext (server c) d tag of
        Inl _ \<Rightarrow> None
      | Inr v \<Rightarrow> (case to_xarray ext (client_for c d v) of Inl _ \<Rightarrow> None | Inr x \<Rightarrow> Some x))"

definition plot_of :: "('body, 'ds, 'plot) external \<Rightarrow> string \<Rightarrow> ERDDAP \<Rightarrow> string \<Rightarrow> 'plot option" where
  "plot_of ext tag c d =
     (case resolve_variable ext (server c) d tag of
        Inl _ \<Rightarrow> None
      | Inr v \<Rightarrow>
          (case to_xarray ext (client_for c d v) of
             Inl _ \<Rightarrow> None
           | Inr x \<Rightarrow> (case hvplot ext x v d of Inl _ \<Rightarrow> None | Inr p \<Rightarrow> Some p)))"

definition requests_of :: "('body, 'ds, 'plot) external \<Rightarrow> string \<Rightarrow> ERDDAP \<Rightarrow> string \<Rightarrow> event list" where
  "requests_of ext tag c d =
     Get_var_by_attr (server c) d tag #
     (case resolve_variable ext (server c) d tag of
        Inl _ \<Rightarrow> []
      | Inr v \<Rightarrow> [To_xarray (client_for c d v)])"

fun opt_list :: "'a option \<Rightarrow> 'a list" where
  "opt_list None = []"
| "opt_list (Some x) = [x]"

text \<open>
  The datasets a run of the loop reaches: all up to and including the first whose
  variable does not resolve. The outcome of the run: that first exception, if any.
\<close>

fun processed :: "('body, 'ds, 'plot) external \<Rightarrow> string \<Rightarrow> ERDDAP \<Rightarrow> string list \<Rightarrow> string list" where
  "processed ext tag c [] = []"
| "processed ext tag c (d # rest) =
     d # (if resolves ext tag c d then processed ext tag c rest else [])"

fun loop_result :: "('body, 'ds, 'plot) external \<Rightarrow> string \<Rightarrow> ERDDAP \<Rightarrow> string list \<Rightarrow> error + unit" where
  "loop_result ext tag c [] = Inr ()"
| "loop_result ext tag c (d # rest) =
     (case resolve_variable ext (server c) d tag of
        Inl e \<Rightarrow> Inl e
      | Inr _ \<Rightarrow> loop_result ext tag c rest)"

text \<open>The entry of the filter \<^verbatim>\<open>str.contains("ctdbp")\<close> for a row whose identifier is in column \<open>i\<close>.\<close>

definition ctdbp_flag :: "nat \<Rightarrow> cell list \<Rightarrow> bool option" where
  "ctdbp_flag i r = (case nth_cell r i of Str x \<Rightarrow> Some (contains x ''ctdbp'') | _ \<Rightarrow> None)"

section \<open>A catalogue and a server to run the notebook against\<close>

text \<open>
  Stand-ins for the libraries, for evaluating the cells on concrete inputs: \<open>web\<close>
  answers a URL with a table or an error, \<open>matches\<close> gives the match list of a dataset,
  \<open>fetch_ok\<close> and \<open>plot_ok\<close> say for which datasets the data request and the plot
  succeed. A series is the identifier and the variables it was asked with, a plot its
  variable and its label.
\<close>

definition mock :: "(string \<Rightarrow> error + DataFrame) \<Rightarrow> (string \<Rightarrow> error + string list) \<Rightarrow> (string \<Rightarrow> bool) \<Rightarrow> (string \<Rightarrow> bool)
    \<Rightarrow> (DataFrame, string \<times> string list, string \<times> string) external" where
  "mock web matches fetch_ok plot_ok =
     \<lparr>get_search_url = (\<lambda>c r args. server c @ ''/search/advanced.'' @ r @ ''?'' @ concat (map fst args)),
      get_download_url = (\<lambda>c. case dataset_id c of None \<Rightarrow> Inl ValueError
                                | Some d \<Rightarrow> Inr (server c @ ''/'' @ protocol c @ ''/'' @ d @ ''.'' @ response c)),
      get_var_by_attr = (\<lambda>srv d tag. matches d),
      to_xarray = (\<lambda>c. case dataset_id c of None \<Rightarrow> Inl ValueError
                         | Some d \<Rightarrow> if fetch_ok d then Inr (d, case variables c of None \<Rightarrow> [] | Some vs \<Rightarrow> vs)
                                     else Inl HTTPError),
      urlopen = web,
      read_csv = (\<lambda>body skiprows. if columns body = [] then Inl ParserError else Inr body),
      hvplot = (\<lambda>ds v l. if plot_ok l then Inr (v, l) else Inl (KeyError v)),
      hvplot_grid = (\<lambda>ds. Inr (''grid'', fst ds)),
      hvplot_points = (\<lambda>df. Inr (''points'', [])),
      overlay = (\<lambda>ps. Inr (''overlay'', []))\<rparr>"

definition abc_matches :: "string \<Rightarrow> error + string list" where
  "abc_matches d =
     (if d = ''A'' then Inr [''sal'']
      else if d = ''B'' then Inr [''salinity'']
      else if d = ''C'' then Inr [''psal'', ''psal_qc'']
      else Inl HTTPError)"

definition no_web :: "string \<Rightarrow> error + DataFrame" where
  "no_web url = Inl HTTPError"

definition blank :: "(string \<times> string list, string \<times> string) notebook" where
  "blank = \<lparr>client = ERDDAP_init ''srv'' ''tabledap'', df_list = [], hv_list = [],
            events = [], stdout = []\<rparr>"

text \<open>
  A catalogue of three datasets, two of them CTDBP instruments, the table of dataset
  positions, and a web that answers the search and the \<^verbatim>\<open>allDatasets\<close> request with them.
\<close>

definition catalog :: DataFrame where
  "catalog =
     \<lparr>columns = [''tabledap'', ''Title'', ''Institution'', ''Dataset ID''],
      index = [0, 1, 2],
      rows = [[Str ''http://e/tabledap/ooi-a-ctdbp1'', Str ''CTD A'', Str ''OOI'', Str ''ooi-a-ctdbp1''],
              [Str ''http://e/tabledap/ooi-b-flort'', Str ''Fluorometer B'', Str ''OOI'', Str ''ooi-b-flort''],
              [Str ''http://e/tabledap/ooi-c-ctdbp2'', Str ''CTD C'', Str ''OOI'', Str ''ooi-c-ctdbp2'']]\<rparr>"

definition lonlat :: DataFrame where
  "lonlat =
     \<lparr>columns = [''datasetID'', ''minLongitude'', ''minLatitude''],
      index = [0, 1, 2],
      rows = [[Str ''ooi-a-ctdbp1'', Num (- 124.1), Num 44.6],
              [Str ''ooi-z-other'', Num (- 70), Num 40],
              [Str ''ooi-c-ctdbp2'', Num (- 124.3), Num 46.9]]\<rparr>"

definition web_ooi :: "string \<Rightarrow> error + DataFrame" where
  "web_ooi url =
     (if contains url ''/tabledap/allDatasets.csv'' then Inr lonlat
      else if contains url ''/search/advanced.csv'' then Inr catalog
      else Inl HTTPError)"

definition ooi_matches :: "string \<Rightarrow> error + string list" where
  "ooi_matches d =
     (if d = ''ooi-b-flort'' then Inr [] else Inr [''sea_water_practical_salinity''])"

text \<open>A web on which the search for everything is answered and every other request fails.\<close>

definition web_all_only :: "string \<Rightarrow> error + DataFrame" where
  "web_all_only url =
     (if url = ooi_server @ ''/search/advanced.csv?search_for'' then Inr catalog
      else Inl HTTPError)"

text \<open>A web that answers every request with the same table.\<close>

definition web_const :: "DataFrame \<Rightarrow> string \<Rightarrow> error + DataFrame" where
  "web_const t url = Inr t"

section \<open>Properties\<close>

subsection \<open>Properties of the masking\<close>

lemma map2_self_row:
  "map2 (\<lambda>v b. if b then v else None) row (map p row) = map (\<lambda>v. if p v then v else None) row"
  by (induction row) simp_all

lemma map2_self_rows:
  "map2 (map2 (\<lambda>v b. if b then v else None)) rs (map (map p) rs)
     = map (map (\<lambda>v. if p v then v else None)) rs"
  by (induction rs) (simp_all add: map2_self_row)

lemma where_lt_vals:
  "vals (where_cond na (lt_scalar na c))
     = map (map (\<lambda>v. if (case v of None \<Rightarrow> False | Some x \<Rightarrow> x < c) then v else None)) (vals na)"
  by (simp add: where_cond_def lt_scalar_def map2_self_rows)

lemma where_gt_vals:
  "vals (where_cond na (gt_scalar na c))
     = map (map (\<lambda>v. if (case v of None \<Rightarrow> False | Some x \<Rightarrow> c < x) then v else None)) (vals na)"
  by (simp add: where_cond_def gt_scalar_def map2_self_rows)

lemma mask_bathy_vals: "vals (mask_bathy na) = map (map keep_shelf) (vals na)"
proof -
  have step: "(\<lambda>v. if (case v of None \<Rightarrow> False | Some x \<Rightarrow> - 1000 < x) then v else None)
               \<circ> (\<lambda>v. if (case v of None \<Rightarrow> False | Some x \<Rightarrow> x < 0) then v else None)
             = keep_shelf"
    by (rule ext) (simp add: keep_shelf_def split: option.splits)
  have "vals (mask_bathy na)
      = map (map ((\<lambda>v. if (case v of None \<Rightarrow> False | Some x \<Rightarrow> - 1000 < x) then v else None)
               \<circ> (\<lambda>v. if (case v of None \<Rightarrow> False | Some x \<Rightarrow> x < 0) then v else None))) (vals na)"
    unfolding mask_bathy_def Let_def where_gt_vals where_lt_vals by (simp add: comp_def)
  then show ?thesis by (simp only: step)
qed

lemma mask_bathy_coords: "lon (mask_bathy na) = lon na \<and> lat (mask_bathy na) = lat na"
  by (simp add: mask_bathy_def where_cond_def Let_def)

text \<open>
  C10. After the two masking steps every value that is not missing lies strictly between
  -1000 and 0; each value of the input is kept unchanged when it lies there and is replaced
  by the missing value otherwise (so -1000 itself, 0 and every positive value are
  missing); the coordinates and the shape of the array are those of the input.
\<close>

theorem mask_bathy_range:
  "(\<forall>row \<in> set (vals (mask_bathy na)). \<forall>v. Some v \<in> set row \<longrightarrow> - 1000 < v \<and> v < 0)
   \<and> vals (mask_bathy na) = map (map keep_shelf) (vals na)
   \<and> keep_shelf (Some (- 1000)) = None
   \<and> (\<forall>x. 0 \<le> x \<longrightarrow> keep_shelf (Some x) = None)
   \<and> lon (mask_bathy na) = lon na \<and> lat (mask_bathy na) = lat na
   \<and> shape (mask_bathy na) = shape na"
proof -
  have rng: "\<forall>row \<in> set (vals (mask_bathy na)). \<forall>v. Some v \<in> set row \<longrightarrow> - 1000 < v \<and> v < 0"
  proof (intro ballI allI impI)
    fix row v
    assume "row \<in> set (vals (mask_bathy na))" and v: "Some v \<in> set row"
    then obtain r where "row = map keep_shelf r"
      by (auto simp: mask_bathy_vals)
    with v obtain u where "keep_shelf u = Some v" by auto
    then show "- 1000 < v \<and> v < 0"
      by (auto simp: keep_shelf_def split: option.splits if_splits)
  qed
  have shp: "shape (mask_bathy na) = shape na"
    by (simp add: shape_def mask_bathy_vals comp_def)
  have edge: "keep_shelf (Some (- 1000)) = None" "\<forall>x. 0 \<le> x \<longrightarrow> keep_shelf (Some x) = None"
    by (simp_all add: keep_shelf_def)
  from rng shp edge mask_bathy_vals mask_bathy_coords show ?thesis by blast
qed

theorem mask_bathy_range_witness:
  "vals (mask_bathy \<lparr>lon = [- 70, - 69, - 68], lat = [40, 41],
        vals = [[Some 12, Some (- 5), Some (- 1000)], [None, Some (- 999.5), Some 0]]\<rparr>)
     = [[None, Some (- 5), None], [None, Some (- 999.5), None]]
   \<and> - 1000 < (- 999.5 :: real) \<and> (- 999.5 :: real) < 0
   \<and> shape (mask_bathy \<lparr>lon = [- 70, - 69, - 68], lat = [40, 41],
        vals = [[Some 12, Some (- 5), Some (- 1000)], [None, Some (- 999.5), Some 0]]\<rparr>) = [3, 3]"
  using mask_bathy_range [of "\<lparr>lon = [- 70, - 69, - 68], lat = [40, 41],
        vals = [[Some 12, Some (- 5), Some (- 1000)], [None, Some (- 999.5), Some 0]]\<rparr>"]
  by (simp add: keep_shelf_def shape_def)

subsection \<open>The loop, field by field\<close>

lemma same_config_refl: "same_config c c"
  by (simp add: same_config_def)

lemma same_config_trans: "same_config a b \<Longrightarrow> same_config b c \<Longrightarrow> same_config a c"
  by (simp add: same_config_def)

lemma same_config_fields:
  assumes "same_config c c'"
  shows "server c' = server c" and "protocol c' = protocol c"
    and "constraints c' = constraints c" and "response c' = response c"
proof -
  from assms have eq: "c'\<lparr>dataset_id := None, variables := None\<rparr> = c\<lparr>dataset_id := None, variables := None\<rparr>"
    by (simp add: same_config_def)
  from arg_cong [OF eq, of server] show "server c' = server c" by simp
  from arg_cong [OF eq, of protocol] show "protocol c' = protocol c" by simp
  from arg_cong [OF eq, of constraints] show "constraints c' = constraints c" by simp
  from arg_cong [OF eq, of response] show "response c' = response c" by simp
qed

lemma same_config_client_for: "same_config c c' \<Longrightarrow> client_for c' d v = client_for c d v"
proof -
  assume "same_config c c'"
  then have eq: "c'\<lparr>dataset_id := None, variables := None\<rparr> = c\<lparr>dataset_id := None, variables := None\<rparr>"
    by (simp add: same_config_def)
  from arg_cong [OF eq, of "\<lambda>r. r\<lparr>dataset_id := Some d, variables := Some [''time'', v]\<rparr>"]
  show ?thesis by (simp add: client_for_def)
qed

lemma last_variable_client_for: "last_variable (client_for c d v) = Inr v"
  by (simp add: last_variable_def client_for_def)

lemma loop_body_fst:
  "fst (loop_body ext tag d s) =
     (case resolve_variable ext (server (client s)) d tag of Inl e \<Rightarrow> Inl e | Inr _ \<Rightarrow> Inr ())"
  by (simp add: loop_body_def Let_def split: sum.splits)

lemma loop_body_client:
  "client (snd (loop_body ext tag d s)) =
     (case resolve_variable ext (server (client s)) d tag of
        Inl e \<Rightarrow> (client s)\<lparr>dataset_id := Some d\<rparr>
      | Inr v \<Rightarrow> client_for (client s) d v)"
  by (simp add: loop_body_def try_fetch_def client_for_def Let_def split: sum.splits)

lemma loop_body_df_list:
  "df_list (snd (loop_body ext tag d s)) = df_list s @ opt_list (series_of ext tag (client s) d)"
  by (simp add: loop_body_def try_fetch_def series_of_def client_for_def Let_def split: sum.splits)

lemma loop_body_hv_list:
  "hv_list (snd (loop_body ext tag d s)) = hv_list s @ opt_list (plot_of ext tag (client s) d)"
  by (simp add: loop_body_def try_fetch_def plot_of_def client_for_def Let_def
      last_variable_def bindE_def split: sum.splits)

lemma loop_body_events:
  "events (snd (loop_body ext tag d s)) = events s @ requests_of ext tag (client s) d"
  by (simp add: loop_body_def try_fetch_def requests_of_def client_for_def Let_def split: sum.splits)

lemma loop_body_stdout:
  "stdout (snd (loop_body ext tag d s)) = stdout s @ map (\<lambda>_. PStr d) (opt_list (series_of ext tag (client s) d))"
  by (simp add: loop_body_def try_fetch_def series_of_def client_for_def Let_def split: sum.splits)

lemma loop_body_same_config: "same_config (client s) (client (snd (loop_body ext tag d s)))"
  by (simp add: loop_body_client same_config_def client_for_def split: sum.splits)

lemma same_config_series_of: "same_config c c' \<Longrightarrow> series_of ext tag c' = series_of ext tag c"
  by (rule ext) (simp add: series_of_def same_config_fields(1) same_config_client_for cong: sum.case_cong)

lemma same_config_plot_of: "same_config c c' \<Longrightarrow> plot_of ext tag c' = plot_of ext tag c"
  by (rule ext) (simp add: plot_of_def same_config_fields(1) same_config_client_for cong: sum.case_cong)

lemma same_config_requests_of: "same_config c c' \<Longrightarrow> requests_of ext tag c' = requests_of ext tag c"
  by (rule ext) (simp add: requests_of_def same_config_fields(1) same_config_client_for cong: sum.case_cong)

lemma same_config_resolves: "same_config c c' \<Longrightarrow> resolves ext tag c' d = resolves ext tag c d"
  by (simp add: resolves_def same_config_fields(1))

lemma same_config_processed: "same_config c c' \<Longrightarrow> processed ext tag c' ids = processed ext tag c ids"
  by (induction ids) (simp_all add: same_config_resolves)

lemma same_config_loop_result: "same_config c c' \<Longrightarrow> loop_result ext tag c' ids = loop_result ext tag c ids"
  by (induction ids) (simp_all add: same_config_fields(1) cong: sum.case_cong)

lemma fetch_loop_Cons_ok:
  "resolves ext tag (client s) d \<Longrightarrow>
     fetch_loop ext tag (d # rest) s = fetch_loop ext tag rest (snd (loop_body ext tag d s))"
  by (cases "loop_body ext tag d s")
     (use loop_body_fst [of ext tag d s] in \<open>auto simp: resolves_def split: sum.splits\<close>)

lemma fetch_loop_Cons_fail:
  "\<not> resolves ext tag (client s) d \<Longrightarrow>
     fetch_loop ext tag (d # rest) s = (fst (loop_body ext tag d s), snd (loop_body ext tag d s))
     \<and> fst (loop_body ext tag d s) = loop_result ext tag (client s) (d # rest)"
  by (cases "loop_body ext tag d s")
     (use loop_body_fst [of ext tag d s] in \<open>auto simp: resolves_def split: sum.splits\<close>)

lemma series_of_unresolved: "\<not> resolves ext tag c d \<Longrightarrow> series_of ext tag c d = None"
  by (simp add: resolves_def series_of_def split: sum.splits)

lemma plot_of_unresolved: "\<not> resolves ext tag c d \<Longrightarrow> plot_of ext tag c d = None"
  by (simp add: resolves_def plot_of_def split: sum.splits)

lemma fetch_loop_fst: "fst (fetch_loop ext tag ids s) = loop_result ext tag (client s) ids"
proof (induction ids arbitrary: s)
  case Nil
  show ?case by simp
next
  case (Cons d rest)
  show ?case
  proof (cases "resolves ext tag (client s) d")
    case True
    have "fst (fetch_loop ext tag (d # rest) s) = loop_result ext tag (client (snd (loop_body ext tag d s))) rest"
      by (simp only: fetch_loop_Cons_ok [OF True] Cons.IH)
    also have "\<dots> = loop_result ext tag (client s) rest"
      by (rule same_config_loop_result [OF loop_body_same_config])
    also have "\<dots> = loop_result ext tag (client s) (d # rest)"
      using True by (simp add: resolves_def split: sum.splits)
    finally show ?thesis .
  next
    case False
    from fetch_loop_Cons_fail [OF False, of rest] show ?thesis by simp
  qed
qed

lemma fetch_loop_same_config: "same_config (client s) (client (snd (fetch_loop ext tag ids s)))"
proof (induction ids arbitrary: s)
  case Nil
  show ?case by (simp add: same_config_refl)
next
  case (Cons d rest)
  show ?case
  proof (cases "resolves ext tag (client s) d")
    case True
    show ?thesis
      unfolding fetch_loop_Cons_ok [OF True]
      by (rule same_config_trans [OF loop_body_same_config Cons.IH])
  next
    case False
    from fetch_loop_Cons_fail [OF False, of rest] show ?thesis
      by (simp add: loop_body_same_config)
  qed
qed

lemma fetch_loop_df_list:
  "df_list (snd (fetch_loop ext tag ids s))
     = df_list s @ List.map_filter (series_of ext tag (client s)) (processed ext tag (client s) ids)"
proof (induction ids arbitrary: s)
  case Nil
  show ?case by (simp add: List.map_filter_simps)
next
  case (Cons d rest)
  let ?s1 = "snd (loop_body ext tag d s)"
  have sc: "same_config (client s) (client ?s1)" by (rule loop_body_same_config)
  show ?case
  proof (cases "resolves ext tag (client s) d")
    case True
    have "df_list (snd (fetch_loop ext tag (d # rest) s))
        = df_list ?s1 @ List.map_filter (series_of ext tag (client ?s1)) (processed ext tag (client ?s1) rest)"
      by (simp only: fetch_loop_Cons_ok [OF True] Cons.IH)
    also have "\<dots> = (df_list s @ opt_list (series_of ext tag (client s) d))
                      @ List.map_filter (series_of ext tag (client s)) (processed ext tag (client s) rest)"
      by (simp only: same_config_processed [OF sc] same_config_series_of [OF sc] loop_body_df_list)
    finally show ?thesis using True
      by (cases "series_of ext tag (client s) d") (simp_all add: List.map_filter_simps)
  next
    case False
    from fetch_loop_Cons_fail [OF False, of rest] False show ?thesis
      by (simp add: loop_body_df_list series_of_unresolved List.map_filter_simps)
  qed
qed

lemma fetch_loop_hv_list:
  "hv_list (snd (fetch_loop ext tag ids s))
     = hv_list s @ List.map_filter (plot_of ext tag (client s)) (processed ext tag (client s) ids)"
proof (induction ids arbitrary: s)
  case Nil
  show ?case by (simp add: List.map_filter_simps)
next
  case (Cons d rest)
  let ?s1 = "snd (loop_body ext tag d s)"
  have sc: "same_config (client s) (client ?s1)" by (rule loop_body_same_config)
  show ?case
  proof (cases "resolves ext tag (client s) d")
    case True
    have "hv_list (snd (fetch_loop ext tag (d # rest) s))
        = hv_list ?s1 @ List.map_filter (plot_of ext tag (client ?s1)) (processed ext tag (client ?s1) rest)"
      by (simp only: fetch_loop_Cons_ok [OF True] Cons.IH)
    also have "\<dots> = (hv_list s @ opt_list (plot_of ext tag (client s) d))
                      @ List.map_filter (plot_of ext tag (client s)) (processed ext tag (client s) rest)"
      by (simp only: same_config_processed [OF sc] same_config_plot_of [OF sc] loop_body_hv_list)
    finally show ?thesis using True
      by (cases "plot_of ext tag (client s) d") (simp_all add: List.map_filter_simps)
  next
    case False
    from fetch_loop_Cons_fail [OF False, of rest] False show ?thesis
      by (simp add: loop_body_hv_list plot_of_unresolved List.map_filter_simps)
  qed
qed

lemma fetch_loop_events:
  "events (snd (fetch_loop ext tag ids s))
     = events s @ concat (map (requests_of ext tag (client s)) (processed ext tag (client s) ids))"
proof (induction ids arbitrary: s)
  case Nil
  show ?case by simp
next
  case (Cons d rest)
  let ?s1 = "snd (loop_body ext tag d s)"
  have sc: "same_config (client s) (client ?s1)" by (rule loop_body_same_config)
  show ?case
  proof (cases "resolves ext tag (client s) d")
    case True
    have "events (snd (fetch_loop ext tag (d # rest) s))
        = events ?s1 @ concat (map (requests_of ext tag (client ?s1)) (processed ext tag (client ?s1) rest))"
      by (simp only: fetch_loop_Cons_ok [OF True] Cons.IH)
    also have "\<dots> = (events s @ requests_of ext tag (client s) d)
                      @ concat (map (requests_of ext tag (client s)) (processed ext tag (client s) rest))"
      by (simp only: same_config_processed [OF sc] same_config_requests_of [OF sc] loop_body_events)
    finally show ?thesis using True by simp
  next
    case False
    from fetch_loop_Cons_fail [OF False, of rest] False show ?thesis
      by (simp add: loop_body_events)
  qed
qed

lemma fetch_loop_stdout:
  "stdout (snd (fetch_loop ext tag ids s))
     = stdout s @ map PStr (filter (\<lambda>d. series_of ext tag (client s) d \<noteq> None)
                              (processed ext tag (client s) ids))"
proof (induction ids arbitrary: s)
  case Nil
  show ?case by simp
next
  case (Cons d rest)
  let ?s1 = "snd (loop_body ext tag d s)"
  have sc: "same_config (client s) (client ?s1)" by (rule loop_body_same_config)
  show ?case
  proof (cases "resolves ext tag (client s) d")
    case True
    have "stdout (snd (fetch_loop ext tag (d # rest) s))
        = stdout ?s1 @ map PStr (filter (\<lambda>d. series_of ext tag (client ?s1) d \<noteq> None)
                                   (processed ext tag (client ?s1) rest))"
      by (simp only: fetch_loop_Cons_ok [OF True] Cons.IH)
    also have "\<dots> = (stdout s @ map (\<lambda>_. PStr d) (opt_list (series_of ext tag (client s) d)))
                      @ map PStr (filter (\<lambda>d. series_of ext tag (client s) d \<noteq> None)
                                   (processed ext tag (client s) rest))"
      by (simp only: same_config_processed [OF sc] same_config_series_of [OF sc] loop_body_stdout)
    finally show ?thesis using True
      by (cases "series_of ext tag (client s) d") simp_all
  next
    case False
    from fetch_loop_Cons_fail [OF False, of rest] False show ?thesis
      by (simp add: loop_body_stdout series_of_unresolved)
  qed
qed

lemma processed_all: "\<forall>d \<in> set ids. resolves ext tag c d \<Longrightarrow> processed ext tag c ids = ids"
  by (induction ids) simp_all

lemma loop_result_all: "\<forall>d \<in> set ids. resolves ext tag c d \<Longrightarrow> loop_result ext tag c ids = Inr ()"
  by (induction ids) (auto simp: resolves_def split: sum.splits)

lemma loop_result_ok_iff: "loop_result ext tag c ids = Inr () \<longleftrightarrow> (\<forall>d \<in> set ids. resolves ext tag c d)"
  by (induction ids) (auto simp: resolves_def split: sum.splits)

lemma processed_prefix: "\<exists>n. processed ext tag c ids = take n ids"
proof (induction ids)
  case Nil
  show ?case by simp
next
  case (Cons d rest)
  then obtain n where n: "processed ext tag c rest = take n rest" by blast
  show ?case
  proof (cases "resolves ext tag c d")
    case True
    with n have "processed ext tag c (d # rest) = take (Suc n) (d # rest)" by simp
    then show ?thesis by blast
  next
    case False
    then have "processed ext tag c (d # rest) = take (Suc 0) (d # rest)" by simp
    then show ?thesis by blast
  qed
qed


subsection \<open>The loop as a whole\<close>

lemma same_config_sym: "same_config a b \<Longrightarrow> same_config b a"
  by (simp add: same_config_def)

lemma same_config_explicit:
  assumes "same_config c c'"
  shows "c' = c\<lparr>dataset_id := dataset_id c', variables := variables c'\<rparr>"
proof -
  from assms have eq: "c'\<lparr>dataset_id := None, variables := None\<rparr> = c\<lparr>dataset_id := None, variables := None\<rparr>"
    by (simp add: same_config_def)
  from arg_cong [OF eq, of "\<lambda>r. r\<lparr>dataset_id := dataset_id c', variables := variables c'\<rparr>"]
  show ?thesis by simp
qed


lemma fetchAll_fst: "fst (fetchAll ext tag ids s) = loop_result ext tag (client s) ids"
  by (simp add: fetchAll_def fetch_loop_fst)

lemma fetchAll_client: "same_config (client s) (client (snd (fetchAll ext tag ids s)))"
  using fetch_loop_same_config [of "s\<lparr>df_list := [], hv_list := []\<rparr>" ext tag ids]
  by (simp add: fetchAll_def)

lemma fetchAll_df_list:
  "df_list (snd (fetchAll ext tag ids s))
     = List.map_filter (series_of ext tag (client s)) (processed ext tag (client s) ids)"
  by (simp add: fetchAll_def fetch_loop_df_list)

lemma fetchAll_hv_list:
  "hv_list (snd (fetchAll ext tag ids s))
     = List.map_filter (plot_of ext tag (client s)) (processed ext tag (client s) ids)"
  by (simp add: fetchAll_def fetch_loop_hv_list)

lemma fetchAll_events:
  "events (snd (fetchAll ext tag ids s))
     = events s @ concat (map (requests_of ext tag (client s)) (processed ext tag (client s) ids))"
  by (simp add: fetchAll_def fetch_loop_events)

lemma fetchAll_stdout:
  "stdout (snd (fetchAll ext tag ids s))
     = stdout s @ map PStr (filter (\<lambda>d. series_of ext tag (client s) d \<noteq> None)
                              (processed ext tag (client s) ids))"
  by (simp add: fetchAll_def fetch_loop_stdout)

lemma length_map_filter: "length (List.map_filter f xs) = length (filter (\<lambda>x. f x \<noteq> None) xs)"
  by (induction xs) (auto simp: List.map_filter_simps split: option.splits)

lemma fetch_loop_last:
  "ids \<noteq> [] \<Longrightarrow> loop_result ext tag (client s) ids = Inr () \<Longrightarrow>
     \<exists>v. resolve_variable ext (server (client s)) (last ids) tag = Inr v
        \<and> client (snd (fetch_loop ext tag ids s)) = client_for (client s) (last ids) v"
proof (induction ids arbitrary: s)
  case Nil
  then show ?case by simp
next
  case (Cons d rest)
  let ?s1 = "snd (loop_body ext tag d s)"
  have sc: "same_config (client s) (client ?s1)" by (rule loop_body_same_config)
  from Cons.prems(2) obtain v where v: "resolve_variable ext (server (client s)) d tag = Inr v"
    and rest: "loop_result ext tag (client s) rest = Inr ()"
    by (auto split: sum.splits)
  from v have ok: "resolves ext tag (client s) d" by (simp add: resolves_def)
  have step: "fetch_loop ext tag (d # rest) s = fetch_loop ext tag rest ?s1"
    by (rule fetch_loop_Cons_ok [OF ok])
  show ?case
  proof (cases "rest = []")
    case True
    have "client (snd (fetch_loop ext tag (d # rest) s)) = client ?s1"
      unfolding step by (simp add: True)
    with v True show ?thesis
      by (simp add: loop_body_client)
  next
    case False
    from rest have "loop_result ext tag (client ?s1) rest = Inr ()"
      by (simp add: same_config_loop_result [OF sc])
    from Cons.IH [OF False this] obtain w
      where w: "resolve_variable ext (server (client ?s1)) (last rest) tag = Inr w"
        and c: "client (snd (fetch_loop ext tag rest ?s1)) = client_for (client ?s1) (last rest) w"
      by blast
    from w have "resolve_variable ext (server (client s)) (last (d # rest)) tag = Inr w"
      using False by (simp add: same_config_fields(1) [OF sc])
    moreover from c have "client (snd (fetch_loop ext tag (d # rest) s)) = client_for (client s) (last (d # rest)) w"
      using False unfolding step by (simp add: same_config_client_for [OF sc])
    ultimately show ?thesis by blast
  qed
qed

lemmas run_defs = fetchAll_def loop_body_def try_fetch_def resolve_variable_def last_variable_def
  bindE_def mock_def abc_matches_def blank_def ERDDAP_init_def Let_def

section \<open>The claims\<close>

text \<open>
  C1, as the code has it. Provided the variable of every descriptor resolves, the loop
  ends normally; \<open>df_list\<close> then holds exactly the series of the descriptors whose data
  request succeeded, in the order of the input and with nothing standing for the others,
  so as many entries as there are such descriptors; \<open>hv_list\<close> holds, in the same way,
  the plots of the descriptors whose request and plot both succeeded.
\<close>

theorem fetchAll_collects_in_order:
  assumes "\<forall>d \<in> set ids. resolves ext tag (client s) d"
  shows "fst (fetchAll ext tag ids s) = Inr ()
    \<and> df_list (snd (fetchAll ext tag ids s)) = List.map_filter (series_of ext tag (client s)) ids
    \<and> hv_list (snd (fetchAll ext tag ids s)) = List.map_filter (plot_of ext tag (client s)) ids
    \<and> length (df_list (snd (fetchAll ext tag ids s)))
        = length (filter (\<lambda>d. series_of ext tag (client s) d \<noteq> None) ids)"
proof -
  from assms have p: "processed ext tag (client s) ids = ids" by (rule processed_all)
  have "fst (fetchAll ext tag ids s) = Inr ()"
    using assms by (simp add: fetchAll_fst loop_result_all)
  moreover have df: "df_list (snd (fetchAll ext tag ids s)) = List.map_filter (series_of ext tag (client s)) ids"
    by (simp add: fetchAll_df_list p)
  moreover have "hv_list (snd (fetchAll ext tag ids s)) = List.map_filter (plot_of ext tag (client s)) ids"
    by (simp add: fetchAll_hv_list p)
  moreover have "length (df_list (snd (fetchAll ext tag ids s)))
        = length (filter (\<lambda>d. series_of ext tag (client s) d \<noteq> None) ids)"
    by (simp only: df length_map_filter)
  ultimately show ?thesis by blast
qed

text \<open>The scenario of the specification: A and C succeed, the data request of B raises.\<close>

theorem fetchAll_collects_in_order_witness:
  "resolves (mock no_web abc_matches (\<lambda>d. d \<noteq> ''B'') (\<lambda>d. True)) ''tag'' (client blank) ''A''
   \<and> resolves (mock no_web abc_matches (\<lambda>d. d \<noteq> ''B'') (\<lambda>d. True)) ''tag'' (client blank) ''B''
   \<and> resolves (mock no_web abc_matches (\<lambda>d. d \<noteq> ''B'') (\<lambda>d. True)) ''tag'' (client blank) ''C''
   \<and> fst (fetchAll (mock no_web abc_matches (\<lambda>d. d \<noteq> ''B'') (\<lambda>d. True)) ''tag'' [''A'', ''B'', ''C''] blank) = Inr ()
   \<and> df_list (snd (fetchAll (mock no_web abc_matches (\<lambda>d. d \<noteq> ''B'') (\<lambda>d. True)) ''tag'' [''A'', ''B'', ''C''] blank))
       = [(''A'', [''time'', ''sal'']), (''C'', [''time'', ''psal''])]
   \<and> hv_list (snd (fetchAll (mock no_web abc_matches (\<lambda>d. d \<noteq> ''B'') (\<lambda>d. True)) ''tag'' [''A'', ''B'', ''C''] blank))
       = [(''sal'', ''A''), (''psal'', ''C'')]"
proof -
  have h: "\<forall>d \<in> set [''A'', ''B'', ''C''].
             resolves (mock no_web abc_matches (\<lambda>d. d \<noteq> ''B'') (\<lambda>d. True)) ''tag'' (client blank) d"
    by (simp add: resolves_def run_defs)
  from h fetchAll_collects_in_order [OF h] show ?thesis
    by (simp add: List.map_filter_simps series_of_def plot_of_def client_for_def run_defs)
qed

text \<open>
  C1 as stated fails: with A and C succeeding and the match list of B empty, the run ends
  in \<open>IndexError\<close> at B, and the list holds the series of A alone, not those of A and C.
\<close>

theorem fetchAll_empty_match_counterexample:
  "fst (fetchAll (mock no_web (abc_matches(''B'' := Inr [])) (\<lambda>d. d \<noteq> ''B'') (\<lambda>d. True)) ''tag'' [''A'', ''B'', ''C''] blank)
     = Inl IndexError
   \<and> df_list (snd (fetchAll (mock no_web (abc_matches(''B'' := Inr [])) (\<lambda>d. d \<noteq> ''B'') (\<lambda>d. True)) ''tag'' [''A'', ''B'', ''C''] blank))
     = [(''A'', [''time'', ''sal''])]
   \<and> df_list (snd (fetchAll (mock no_web (abc_matches(''B'' := Inr [])) (\<lambda>d. d \<noteq> ''B'') (\<lambda>d. True)) ''tag'' [''A'', ''B'', ''C''] blank))
     \<noteq> [(''A'', [''time'', ''sal'']), (''C'', [''time'', ''psal''])]"
  by (simp add: run_defs)


text \<open>
  C2, as the code has it. With the variable of dataset \<open>d\<close> resolved to \<open>v\<close>: when the
  data request raises, the pass ends normally having changed the client and issued its
  two requests and nothing else (no series, no plot, no line printed, no trace of the
  exception), and the loop goes on with the next descriptor; when the request succeeds
  and the plot raises, the same holds except that the series is already in \<open>df_list\<close>
  and its identifier printed. When resolving the variable raises (the metadata request
  fails or the match list is empty), nothing catches it: the loop ends there with that
  exception and the descriptors after \<open>d\<close> are not reached. So no exception leaves the
  loop when every variable resolves.
\<close>

theorem loop_skips_failed_fetch:
  "(resolve_variable ext (server (client s)) d tag = Inr v \<longrightarrow>
      to_xarray ext (client_for (client s) d v) = Inl e \<longrightarrow>
        loop_body ext tag d s =
          (Inr (), s\<lparr>client := client_for (client s) d v,
                     events := events s @ [Get_var_by_attr (server (client s)) d tag,
                                           To_xarray (client_for (client s) d v)]\<rparr>)
        \<and> fetch_loop ext tag (d # rest) s = fetch_loop ext tag rest (snd (loop_body ext tag d s)))
   \<and> (resolve_variable ext (server (client s)) d tag = Inr v \<longrightarrow>
      to_xarray ext (client_for (client s) d v) = Inr x \<longrightarrow>
      hvplot ext x v d = Inl e \<longrightarrow>
        loop_body ext tag d s =
          (Inr (), s\<lparr>client := client_for (client s) d v,
                     events := events s @ [Get_var_by_attr (server (client s)) d tag,
                                           To_xarray (client_for (client s) d v)],
                     df_list := df_list s @ [x],
                     stdout := stdout s @ [PStr d]\<rparr>)
        \<and> fetch_loop ext tag (d # rest) s = fetch_loop ext tag rest (snd (loop_body ext tag d s)))
   \<and> (resolve_variable ext (server (client s)) d tag = Inl e \<longrightarrow>
        fetch_loop ext tag (d # rest) s =
          (Inl e, s\<lparr>client := (client s)\<lparr>dataset_id := Some d\<rparr>,
                     events := events s @ [Get_var_by_attr (server (client s)) d tag]\<rparr>))
   \<and> ((\<forall>d' \<in> set ids. resolves ext tag (client s) d') \<longrightarrow> fst (fetchAll ext tag ids s) = Inr ())"
proof (intro conjI impI)
  assume r: "resolve_variable ext (server (client s)) d tag = Inr v"
    and f: "to_xarray ext (client_for (client s) d v) = Inl e"
  from r f show "loop_body ext tag d s =
          (Inr (), s\<lparr>client := client_for (client s) d v,
                     events := events s @ [Get_var_by_attr (server (client s)) d tag,
                                           To_xarray (client_for (client s) d v)]\<rparr>)"
    by (simp add: loop_body_def try_fetch_def client_for_def Let_def)
  from r show "fetch_loop ext tag (d # rest) s = fetch_loop ext tag rest (snd (loop_body ext tag d s))"
    by (intro fetch_loop_Cons_ok) (simp add: resolves_def)
next
  assume r: "resolve_variable ext (server (client s)) d tag = Inr v"
    and f: "to_xarray ext (client_for (client s) d v) = Inr x"
    and h: "hvplot ext x v d = Inl e"
  from r f h show "loop_body ext tag d s =
          (Inr (), s\<lparr>client := client_for (client s) d v,
                     events := events s @ [Get_var_by_attr (server (client s)) d tag,
                                           To_xarray (client_for (client s) d v)],
                     df_list := df_list s @ [x],
                     stdout := stdout s @ [PStr d]\<rparr>)"
    by (simp add: loop_body_def try_fetch_def client_for_def last_variable_def bindE_def Let_def)
  from r show "fetch_loop ext tag (d # rest) s = fetch_loop ext tag rest (snd (loop_body ext tag d s))"
    by (intro fetch_loop_Cons_ok) (simp add: resolves_def)
next
  assume r: "resolve_variable ext (server (client s)) d tag = Inl e"
  then show "fetch_loop ext tag (d # rest) s =
          (Inl e, s\<lparr>client := (client s)\<lparr>dataset_id := Some d\<rparr>,
                     events := events s @ [Get_var_by_attr (server (client s)) d tag]\<rparr>)"
    by (simp add: loop_body_def Let_def)
next
  assume "\<forall>d' \<in> set ids. resolves ext tag (client s) d'"
  then show "fst (fetchAll ext tag ids s) = Inr ()"
    by (simp add: fetchAll_fst loop_result_all)
qed

text \<open>
  On the stand-in server: the request of B raises and B is passed over; the plot of A
  raises and A keeps its series; the metadata request of B raises and ends the loop.
\<close>

theorem loop_skips_failed_fetch_witness:
  "loop_body (mock no_web abc_matches (\<lambda>d. d \<noteq> ''B'') (\<lambda>d. True)) ''tag'' ''B'' blank
     = (Inr (), blank\<lparr>client := client_for (client blank) ''B'' ''salinity'',
                       events := [Get_var_by_attr ''srv'' ''B'' ''tag'',
                                  To_xarray (client_for (client blank) ''B'' ''salinity'')]\<rparr>)
   \<and> df_list (snd (loop_body (mock no_web abc_matches (\<lambda>d. True) (\<lambda>d. d \<noteq> ''A'')) ''tag'' ''A'' blank))
       = [(''A'', [''time'', ''sal''])]
   \<and> hv_list (snd (loop_body (mock no_web abc_matches (\<lambda>d. True) (\<lambda>d. d \<noteq> ''A'')) ''tag'' ''A'' blank)) = []
   \<and> fst (fetch_loop (mock no_web (abc_matches(''B'' := Inl HTTPError)) (\<lambda>d. True) (\<lambda>d. True)) ''tag'' [''B'', ''C''] blank)
       = Inl HTTPError
   \<and> fst (fetchAll (mock no_web abc_matches (\<lambda>d. d \<noteq> ''B'') (\<lambda>d. True)) ''tag'' [''A'', ''B'', ''C''] blank) = Inr ()"
proof -
  let ?m1 = "mock no_web abc_matches (\<lambda>d. d \<noteq> ''B'') (\<lambda>d. True)"
  let ?m2 = "mock no_web abc_matches (\<lambda>d. True) (\<lambda>d. d \<noteq> ''A'')"
  let ?m3 = "mock no_web (abc_matches(''B'' := Inl HTTPError)) (\<lambda>d. True) (\<lambda>d. True)"
  have r1: "resolve_variable ?m1 (server (client blank)) ''B'' ''tag'' = Inr ''salinity''"
    by (simp add: run_defs)
  have f1: "to_xarray ?m1 (client_for (client blank) ''B'' ''salinity'') = Inl HTTPError"
    by (simp add: client_for_def run_defs)
  have r2: "resolve_variable ?m2 (server (client blank)) ''A'' ''tag'' = Inr ''sal''"
    by (simp add: run_defs)
  have f2: "to_xarray ?m2 (client_for (client blank) ''A'' ''sal'') = Inr (''A'', [''time'', ''sal''])"
    by (simp add: client_for_def run_defs)
  have h2: "hvplot ?m2 (''A'', [''time'', ''sal'']) ''sal'' ''A'' = Inl (KeyError ''sal'')"
    by (simp add: run_defs)
  have r3: "resolve_variable ?m3 (server (client blank)) ''B'' ''tag'' = Inl HTTPError"
    by (simp add: run_defs)
  have a4: "\<forall>d' \<in> set [''A'', ''B'', ''C'']. resolves ?m1 ''tag'' (client blank) d'"
    by (simp add: resolves_def run_defs)
  note t1 = loop_skips_failed_fetch [of ?m1 blank "''B''" "''tag''" "''salinity''" HTTPError "[]"]
  note t2 = loop_skips_failed_fetch [of ?m2 blank "''A''" "''tag''" "''sal''" "KeyError ''sal''" "[]" "(''A'', [''time'', ''sal''])"]
  note t3 = loop_skips_failed_fetch [of ?m3 blank "''B''" "''tag''" _ HTTPError "[''C'']"]
  note t4 = loop_skips_failed_fetch [of ?m1 blank _ "''tag''" _ _ _ _ "[''A'', ''B'', ''C'']"]
  from t1 r1 f1 have c1: "loop_body ?m1 ''tag'' ''B'' blank
     = (Inr (), blank\<lparr>client := client_for (client blank) ''B'' ''salinity'',
                       events := events blank @ [Get_var_by_attr (server (client blank)) ''B'' ''tag'',
                                  To_xarray (client_for (client blank) ''B'' ''salinity'')]\<rparr>)"
    by blast
  from t2 r2 f2 h2 have c2: "loop_body ?m2 ''tag'' ''A'' blank
     = (Inr (), blank\<lparr>client := client_for (client blank) ''A'' ''sal'',
                       events := events blank @ [Get_var_by_attr (server (client blank)) ''A'' ''tag'',
                                  To_xarray (client_for (client blank) ''A'' ''sal'')],
                       df_list := df_list blank @ [(''A'', [''time'', ''sal''])],
                       stdout := stdout blank @ [PStr ''A'']\<rparr>)"
    by blast
  from t3 r3 have c3: "fst (fetch_loop ?m3 ''tag'' [''B'', ''C''] blank) = Inl HTTPError"
    by simp
  from t4 a4 have c4: "fst (fetchAll ?m1 ''tag'' [''A'', ''B'', ''C''] blank) = Inr ()"
    by blast
  from c1 have "loop_body ?m1 ''tag'' ''B'' blank
     = (Inr (), blank\<lparr>client := client_for (client blank) ''B'' ''salinity'',
                       events := [Get_var_by_attr ''srv'' ''B'' ''tag'',
                                  To_xarray (client_for (client blank) ''B'' ''salinity'')]\<rparr>)"
    by (simp add: blank_def ERDDAP_init_def)
  moreover from c2 have "df_list (snd (loop_body ?m2 ''tag'' ''A'' blank)) = [(''A'', [''time'', ''sal''])]"
    by (simp add: blank_def)
  moreover from c2 have "hv_list (snd (loop_body ?m2 ''tag'' ''A'' blank)) = []"
    by (simp add: blank_def)
  ultimately show ?thesis using c3 c4 by blast
qed

text \<open>
  C2 as stated fails: the metadata request of B fails (a network failure), the exception
  leaves the loop, and C, whose requests would all succeed, is never asked for.
\<close>

theorem fetchAll_metadata_failure_counterexample:
  "fetchAll (mock no_web (abc_matches(''B'' := Inl HTTPError)) (\<lambda>d. True) (\<lambda>d. True)) ''tag'' [''A'', ''B'', ''C''] blank
     = (Inl HTTPError,
        \<lparr>client = \<lparr>server = ''srv'', protocol = ''tabledap'', dataset_id = Some ''B'',
                    variables = Some [''time'', ''sal''], constraints = None, response = ''html''\<rparr>,
         df_list = [(''A'', [''time'', ''sal''])],
         hv_list = [(''sal'', ''A'')],
         events = [Get_var_by_attr ''srv'' ''A'' ''tag'',
                   To_xarray \<lparr>server = ''srv'', protocol = ''tabledap'', dataset_id = Some ''A'',
                     variables = Some [''time'', ''sal''], constraints = None, response = ''html''\<rparr>,
                   Get_var_by_attr ''srv'' ''B'' ''tag''],
         stdout = [PStr ''A'']\<rparr>)"
  by (simp add: run_defs)


text \<open>
  C4, as the code has it. For a dataset whose match list is not empty, the variable is
  index 0 of that list, whether one variable or several carry the tag, and the pass of
  the loop for that dataset asks for \<open>time\<close> and that variable; the list is the one
  the library gives for this dataset, so two datasets may resolve one tag to different
  names. For a dataset with no match, indexing raises \<open>IndexError\<close> and no variable
  is selected; a failure of the metadata query is passed on unchanged.
\<close>

theorem resolve_variable_first_match:
  "(get_var_by_attr ext srv d tag = Inr (v # others) \<longrightarrow> resolve_variable ext srv d tag = Inr v)
   \<and> (get_var_by_attr ext srv d tag = Inr [] \<longrightarrow> resolve_variable ext srv d tag = Inl IndexError)
   \<and> (get_var_by_attr ext srv d tag = Inl e \<longrightarrow> resolve_variable ext srv d tag = Inl e)
   \<and> (get_var_by_attr ext (server (client s)) d tag = Inr (v # others) \<longrightarrow>
        fst (loop_body ext tag d s) = Inr ()
        \<and> dataset_id (client (snd (loop_body ext tag d s))) = Some d
        \<and> variables (client (snd (loop_body ext tag d s))) = Some [''time'', v])"
  by (simp add: resolve_variable_def bindE_def loop_body_fst loop_body_client client_for_def)

theorem resolve_variable_first_match_witness:
  "resolve_variable (mock no_web abc_matches (\<lambda>d. True) (\<lambda>d. True)) ''srv'' ''C'' ''tag'' = Inr ''psal''
   \<and> resolve_variable (mock no_web abc_matches (\<lambda>d. True) (\<lambda>d. True)) ''srv'' ''A'' ''tag'' = Inr ''sal''
   \<and> resolve_variable (mock no_web (abc_matches(''B'' := Inr [])) (\<lambda>d. True) (\<lambda>d. True)) ''srv'' ''B'' ''tag'' = Inl IndexError
   \<and> resolve_variable (mock no_web abc_matches (\<lambda>d. True) (\<lambda>d. True)) ''srv'' ''D'' ''tag'' = Inl HTTPError
   \<and> variables (client (snd (loop_body (mock no_web abc_matches (\<lambda>d. True) (\<lambda>d. True)) ''tag'' ''C'' blank)))
       = Some [''time'', ''psal'']"
proof -
  let ?m = "mock no_web abc_matches (\<lambda>d. True) (\<lambda>d. True)"
  let ?n = "mock no_web (abc_matches(''B'' := Inr [])) (\<lambda>d. True) (\<lambda>d. True)"
  have gC: "get_var_by_attr ?m ''srv'' ''C'' ''tag'' = Inr [''psal'', ''psal_qc'']"
    and gA: "get_var_by_attr ?m ''srv'' ''A'' ''tag'' = Inr [''sal'']"
    and gD: "get_var_by_attr ?m ''srv'' ''D'' ''tag'' = Inl HTTPError"
    and gB: "get_var_by_attr ?n ''srv'' ''B'' ''tag'' = Inr []"
    and gs: "get_var_by_attr ?m (server (client blank)) ''C'' ''tag'' = Inr [''psal'', ''psal_qc'']"
    by (simp_all add: mock_def abc_matches_def)
  from gC resolve_variable_first_match [of ?m "''srv''" "''C''" "''tag''" "''psal''" "[''psal_qc'']"]
  have "resolve_variable ?m ''srv'' ''C'' ''tag'' = Inr ''psal''" by blast
  moreover from gA resolve_variable_first_match [of ?m "''srv''" "''A''" "''tag''" "''sal''" "[]"]
  have "resolve_variable ?m ''srv'' ''A'' ''tag'' = Inr ''sal''" by blast
  moreover from gB resolve_variable_first_match [of ?n "''srv''" "''B''" "''tag''"]
  have "resolve_variable ?n ''srv'' ''B'' ''tag'' = Inl IndexError" by blast
  moreover from gD resolve_variable_first_match [of ?m "''srv''" "''D''" "''tag''" _ _ HTTPError]
  have "resolve_variable ?m ''srv'' ''D'' ''tag'' = Inl HTTPError" by blast
  moreover from gs resolve_variable_first_match [of ?m _ "''C''" "''tag''" "''psal''" "[''psal_qc'']" _ blank]
  have "variables (client (snd (loop_body ?m ''tag'' ''C'' blank))) = Some [''time'', ''psal'']" by blast
  ultimately show ?thesis by blast
qed

text \<open>
  C4 as stated fails where no variable carries the tag: index 0 of the empty match list
  is no variable name but an \<open>IndexError\<close>, which ends the pass before any request for
  data is made.
\<close>

theorem resolve_variable_no_match_counterexample:
  "resolve_variable (mock no_web (\<lambda>d. Inr []) (\<lambda>d. True) (\<lambda>d. True)) ''srv'' ''A'' ''tag'' = Inl IndexError
   \<and> loop_body (mock no_web (\<lambda>d. Inr []) (\<lambda>d. True) (\<lambda>d. True)) ''tag'' ''A'' blank
       = (Inl IndexError,
          blank\<lparr>client := (client blank)\<lparr>dataset_id := Some ''A''\<rparr>,
                events := [Get_var_by_attr ''srv'' ''A'' ''tag'']\<rparr>)"
  by (simp add: run_defs)




text \<open>
  C9. A pass of the loop, and so the whole loop, changes no attribute of the client but
  \<open>dataset_id\<close> and \<open>variables\<close>: server, protocol, constraints and response format are
  after it what they were before. Each pass sets \<open>dataset_id\<close> to its descriptor and,
  once the variable is resolved, \<open>variables\<close> to \<open>time\<close> and that variable. After
  a loop that ran to its end over a list that is not empty, \<open>dataset_id\<close> is the last
  descriptor and \<open>variables\<close> is \<open>time\<close> with the variable resolved for it.
\<close>

theorem loop_changes_two_attributes:
  "server (client (snd (loop_body ext tag d s))) = server (client s)
   \<and> protocol (client (snd (loop_body ext tag d s))) = protocol (client s)
   \<and> constraints (client (snd (loop_body ext tag d s))) = constraints (client s)
   \<and> response (client (snd (loop_body ext tag d s))) = response (client s)
   \<and> dataset_id (client (snd (loop_body ext tag d s))) = Some d
   \<and> (resolve_variable ext (server (client s)) d tag = Inr w \<longrightarrow>
        variables (client (snd (loop_body ext tag d s))) = Some [''time'', w])
   \<and> client (snd (loop_body ext tag d s))
       = (client s)\<lparr>dataset_id := dataset_id (client (snd (loop_body ext tag d s))),
                    variables := variables (client (snd (loop_body ext tag d s)))\<rparr>
   \<and> client (snd (fetchAll ext tag ids s))
       = (client s)\<lparr>dataset_id := dataset_id (client (snd (fetchAll ext tag ids s))),
                    variables := variables (client (snd (fetchAll ext tag ids s)))\<rparr>
   \<and> server (client (snd (fetchAll ext tag ids s))) = server (client s)
   \<and> protocol (client (snd (fetchAll ext tag ids s))) = protocol (client s)
   \<and> constraints (client (snd (fetchAll ext tag ids s))) = constraints (client s)
   \<and> response (client (snd (fetchAll ext tag ids s))) = response (client s)
   \<and> (ids \<noteq> [] \<longrightarrow> fst (fetchAll ext tag ids s) = Inr () \<longrightarrow>
        (\<exists>v. resolve_variable ext (server (client s)) (last ids) tag = Inr v
           \<and> dataset_id (client (snd (fetchAll ext tag ids s))) = Some (last ids)
           \<and> variables (client (snd (fetchAll ext tag ids s))) = Some [''time'', v]))"
proof -
  have b: "same_config (client s) (client (snd (loop_body ext tag d s)))"
    by (rule loop_body_same_config)
  have a: "same_config (client s) (client (snd (fetchAll ext tag ids s)))"
    by (rule fetchAll_client)
  have d: "dataset_id (client (snd (loop_body ext tag d s))) = Some d"
    by (simp add: loop_body_client client_for_def split: sum.splits)
  have w: "resolve_variable ext (server (client s)) d tag = Inr w \<longrightarrow>
        variables (client (snd (loop_body ext tag d s))) = Some [''time'', w]"
    by (simp add: loop_body_client client_for_def)
  have l: "ids \<noteq> [] \<longrightarrow> fst (fetchAll ext tag ids s) = Inr () \<longrightarrow>
        (\<exists>v. resolve_variable ext (server (client s)) (last ids) tag = Inr v
           \<and> dataset_id (client (snd (fetchAll ext tag ids s))) = Some (last ids)
           \<and> variables (client (snd (fetchAll ext tag ids s))) = Some [''time'', v])"
  proof (intro impI)
    assume ne: "ids \<noteq> []" and ok: "fst (fetchAll ext tag ids s) = Inr ()"
    let ?s0 = "s\<lparr>df_list := [], hv_list := []\<rparr>"
    from ok have "loop_result ext tag (client ?s0) ids = Inr ()"
      by (simp add: fetchAll_fst)
    from fetch_loop_last [OF ne this] obtain v
      where "resolve_variable ext (server (client s)) (last ids) tag = Inr v"
        and "client (snd (fetchAll ext tag ids s)) = client_for (client s) (last ids) v"
      by (auto simp: fetchAll_def)
    then show "\<exists>v. resolve_variable ext (server (client s)) (last ids) tag = Inr v
           \<and> dataset_id (client (snd (fetchAll ext tag ids s))) = Some (last ids)
           \<and> variables (client (snd (fetchAll ext tag ids s))) = Some [''time'', v]"
      by (auto simp: client_for_def)
  qed
  from same_config_fields [OF b] same_config_fields [OF a]
    same_config_explicit [OF b] same_config_explicit [OF a] d w l
  show ?thesis by blast
qed

theorem loop_changes_two_attributes_witness:
  "fst (fetchAll (mock no_web abc_matches (\<lambda>d. d \<noteq> ''B'') (\<lambda>d. True)) ''tag'' [''A'', ''B''] blank) = Inr ()
   \<and> dataset_id (client (snd (fetchAll (mock no_web abc_matches (\<lambda>d. d \<noteq> ''B'') (\<lambda>d. True)) ''tag'' [''A'', ''B''] blank)))
       = Some ''B''
   \<and> variables (client (snd (fetchAll (mock no_web abc_matches (\<lambda>d. d \<noteq> ''B'') (\<lambda>d. True)) ''tag'' [''A'', ''B''] blank)))
       = Some [''time'', ''salinity'']
   \<and> response (client (snd (fetchAll (mock no_web abc_matches (\<lambda>d. d \<noteq> ''B'') (\<lambda>d. True)) ''tag'' [''A'', ''B''] blank)))
       = ''html''
   \<and> variables (client (snd (loop_body (mock no_web abc_matches (\<lambda>d. d \<noteq> ''B'') (\<lambda>d. True)) ''tag'' ''A'' blank)))
       = Some [''time'', ''sal'']"
proof -
  let ?m = "mock no_web abc_matches (\<lambda>d. d \<noteq> ''B'') (\<lambda>d. True)"
  have ne: "[''A'', ''B''] \<noteq> ([] :: string list)" by simp
  have ok: "fst (fetchAll ?m ''tag'' [''A'', ''B''] blank) = Inr ()"
    by (simp add: run_defs)
  have r: "resolve_variable ?m (server (client blank)) (last [''A'', ''B'']) ''tag'' = Inr ''salinity''"
    by (simp add: run_defs)
  have ra: "resolve_variable ?m (server (client blank)) ''A'' ''tag'' = Inr ''sal''"
    by (simp add: run_defs)
  note t = loop_changes_two_attributes [where ext = ?m and tag = "''tag''" and d = "''A''"
      and s = blank and ids = "[''A'', ''B'']" and w = "''sal''"]
  from t ne ok
  have "(\<exists>v. resolve_variable ?m (server (client blank)) (last [''A'', ''B'']) ''tag'' = Inr v
           \<and> dataset_id (client (snd (fetchAll ?m ''tag'' [''A'', ''B''] blank))) = Some (last [''A'', ''B''])
           \<and> variables (client (snd (fetchAll ?m ''tag'' [''A'', ''B''] blank))) = Some [''time'', v])"
    and "response (client (snd (fetchAll ?m ''tag'' [''A'', ''B''] blank))) = response (client blank)"
    by blast+
  moreover from t ra
  have "variables (client (snd (loop_body ?m ''tag'' ''A'' blank))) = Some [''time'', ''sal'']"
    by blast
  ultimately show ?thesis using r ok
    by (auto simp: blank_def ERDDAP_init_def)
qed


subsection \<open>Search and the run of the cells\<close>

lemma search_snd: "snd (search ext args s) = s\<lparr>events := events s @ [Urlopen (get_search_url ext (client s) ''csv'' args)]\<rparr>"
  by (simp add: search_def Let_def)

lemma search_fst:
  "fst (search ext args s) =
     bindE (urlopen ext (get_search_url ext (client s) ''csv'' args)) (\<lambda>body.
     bindE (read_csv ext body []) (\<lambda>search_df.
     getitem_cols search_df [''Institution'', ''Dataset ID'', ''tabledap'']))"
  by (simp add: search_def Let_def)

lemma search_all_snd:
  "snd (search_all ext s)
     = s\<lparr>events := events s @ [Urlopen (get_search_url ext (client s) ''csv'' [(''search_for'', Str ''all'')])]\<rparr>"
  by (simp add: search_all_def Let_def)

lemma then_do_Inl: "fst (m s) = Inl e \<Longrightarrow> then_do m f s = (Inl e, snd (m s))"
  by (cases "m s") (simp add: then_do_def)

lemma then_do_Inr: "fst (m s) = Inr x \<Longrightarrow> then_do m f s = f x (snd (m s))"
  by (cases "m s") (simp add: then_do_def)

text \<open>
  C3. When the search request fails, or its answer cannot be read as a table, the search
  ends with that exception and no table, having issued its one request and changed
  nothing else. In the run of the cells the exception ends the run there: the final
  state is the state right after the failed search, whose only requests are the two
  searches, so the loop has asked for no metadata and no data.
\<close>

theorem search_failure_ends_run:
  "(urlopen ext (get_search_url ext (client s) ''csv'' args) = Inl e \<longrightarrow>
      search ext args s
        = (Inl e, s\<lparr>events := events s @ [Urlopen (get_search_url ext (client s) ''csv'' args)]\<rparr>))
   \<and> (urlopen ext (get_search_url ext (client s) ''csv'' args) = Inr body \<longrightarrow>
      read_csv ext body [] = Inl e \<longrightarrow>
      search ext args s
        = (Inl e, s\<lparr>events := events s @ [Urlopen (get_search_url ext (client s) ''csv'' args)]\<rparr>))
   \<and> (fst (search_all ext start) = Inr df \<longrightarrow>
      fst (search ext kw (snd (search_all ext start))) = Inl e \<longrightarrow>
      run_ooi ext
        = (Inl e, start\<lparr>events :=
             [Urlopen (get_search_url ext (client start) ''csv'' [(''search_for'', Str ''all'')]),
              Urlopen (get_search_url ext (client start) ''csv'' kw)]\<rparr>))"
proof (intro conjI impI)
  assume "urlopen ext (get_search_url ext (client s) ''csv'' args) = Inl e"
  then show "search ext args s
        = (Inl e, s\<lparr>events := events s @ [Urlopen (get_search_url ext (client s) ''csv'' args)]\<rparr>)"
    by (simp add: search_def bindE_def Let_def)
next
  assume "urlopen ext (get_search_url ext (client s) ''csv'' args) = Inr body"
    and "read_csv ext body [] = Inl e"
  then show "search ext args s
        = (Inl e, s\<lparr>events := events s @ [Urlopen (get_search_url ext (client s) ''csv'' args)]\<rparr>)"
    by (simp add: search_def bindE_def Let_def)
next
  assume a: "fst (search_all ext start) = Inr df"
    and b: "fst (search ext kw (snd (search_all ext start))) = Inl e"
  have "run_ooi ext = (Inl e, snd (search ext kw (snd (search_all ext start))))"
    unfolding run_ooi_def
    by (simp only: then_do_Inr [where m = "search_all ext" and s = start and x = df, OF a]
        then_do_Inl [where m = "search ext kw" and s = "snd (search_all ext start)" and e = e, OF b])
  also have "snd (search ext kw (snd (search_all ext start)))
      = start\<lparr>events :=
             [Urlopen (get_search_url ext (client start) ''csv'' [(''search_for'', Str ''all'')]),
              Urlopen (get_search_url ext (client start) ''csv'' kw)]\<rparr>"
    by (simp add: search_snd search_all_snd start_def)
  finally show "run_ooi ext
        = (Inl e, start\<lparr>events :=
             [Urlopen (get_search_url ext (client start) ''csv'' [(''search_for'', Str ''all'')]),
              Urlopen (get_search_url ext (client start) ''csv'' kw)]\<rparr>)" .
qed

lemma mock_search_url:
  "get_search_url (mock web m f p) c ''csv'' args = server c @ ''/search/advanced.csv?'' @ concat (map fst args)"
  by (simp add: mock_def)

theorem search_failure_ends_run_witness:
  "search (mock no_web abc_matches (\<lambda>d. True) (\<lambda>d. True)) [(''cdm_data_type'', Str ''timeseries'')] blank
     = (Inl HTTPError, blank\<lparr>events := [Urlopen ''srv/search/advanced.csv?cdm_data_type'']\<rparr>)
   \<and> search (mock (web_const \<lparr>columns = [], index = [], rows = []\<rparr>) abc_matches (\<lambda>d. True) (\<lambda>d. True))
        [(''cdm_data_type'', Str ''timeseries'')] blank
     = (Inl ParserError, blank\<lparr>events := [Urlopen ''srv/search/advanced.csv?cdm_data_type'']\<rparr>)
   \<and> fst (run_ooi (mock web_all_only ooi_matches (\<lambda>d. True) (\<lambda>d. True))) = Inl HTTPError
   \<and> length (events (snd (run_ooi (mock web_all_only ooi_matches (\<lambda>d. True) (\<lambda>d. True))))) = 2
   \<and> df_list (snd (run_ooi (mock web_all_only ooi_matches (\<lambda>d. True) (\<lambda>d. True)))) = []"
proof -
  let ?m1 = "mock no_web abc_matches (\<lambda>d. True) (\<lambda>d. True)"
  let ?m2 = "mock (web_const \<lparr>columns = [], index = [], rows = []\<rparr>) abc_matches (\<lambda>d. True) (\<lambda>d. True)"
  let ?m3 = "mock web_all_only ooi_matches (\<lambda>d. True) (\<lambda>d. True)"
  let ?args = "[(''cdm_data_type'', Str ''timeseries'')]"
  have u1: "urlopen ?m1 (get_search_url ?m1 (client blank) ''csv'' ?args) = Inl HTTPError"
    by (simp add: mock_def no_web_def)
  have u2: "urlopen ?m2 (get_search_url ?m2 (client blank) ''csv'' ?args) = Inr \<lparr>columns = [], index = [], rows = []\<rparr>"
    by (simp add: mock_def web_const_def)
  have r2: "read_csv ?m2 \<lparr>columns = [], index = [], rows = []\<rparr> [] = Inl ParserError"
    by (simp add: mock_def)
  have a3: "fst (search_all ?m3 start) = Inr catalog"
    by (simp add: search_all_def Let_def mock_search_url start_def ERDDAP_init_def bindE_def)
       (simp add: mock_def web_all_only_def catalog_def)
  have b3: "fst (search ?m3 kw (snd (search_all ?m3 start))) = Inl HTTPError"
    by (simp add: search_fst search_all_snd mock_search_url start_def ERDDAP_init_def kw_def)
       (simp add: mock_def web_all_only_def bindE_def)
  note t1 = search_failure_ends_run [where ext = ?m1 and s = blank and args = ?args and e = HTTPError]
  note t2 = search_failure_ends_run [where ext = ?m2 and s = blank and args = ?args
      and body = "\<lparr>columns = [], index = [], rows = []\<rparr>" and e = ParserError]
  note t3 = search_failure_ends_run [where ext = ?m3 and e = HTTPError and df = catalog]
  from t1 u1 have c1: "search ?m1 ?args blank
        = (Inl HTTPError, blank\<lparr>events := events blank @ [Urlopen (get_search_url ?m1 (client blank) ''csv'' ?args)]\<rparr>)"
    by blast
  from t2 u2 r2 have c2: "search ?m2 ?args blank
        = (Inl ParserError, blank\<lparr>events := events blank @ [Urlopen (get_search_url ?m2 (client blank) ''csv'' ?args)]\<rparr>)"
    by blast
  from t3 a3 b3 have c3: "run_ooi ?m3
        = (Inl HTTPError, start\<lparr>events :=
             [Urlopen (get_search_url ?m3 (client start) ''csv'' [(''search_for'', Str ''all'')]),
              Urlopen (get_search_url ?m3 (client start) ''csv'' kw)]\<rparr>)"
    by blast
  from c1 have "search ?m1 ?args blank
     = (Inl HTTPError, blank\<lparr>events := [Urlopen ''srv/search/advanced.csv?cdm_data_type'']\<rparr>)"
    by (simp add: mock_search_url blank_def ERDDAP_init_def)
  moreover from c2 have "search ?m2 ?args blank
     = (Inl ParserError, blank\<lparr>events := [Urlopen ''srv/search/advanced.csv?cdm_data_type'']\<rparr>)"
    by (simp add: mock_search_url blank_def ERDDAP_init_def)
  moreover from c3 have "fst (run_ooi ?m3) = Inl HTTPError"
    and "length (events (snd (run_ooi ?m3))) = 2"
    and "df_list (snd (run_ooi ?m3)) = []"
    by (simp_all add: start_def)
  ultimately show ?thesis by blast
qed

text \<open>
  C6. A search changes nothing but the list of requests issued, to which it adds its
  one request, and its result depends on the state through the client only. So a
  second search with the same constraints, the service answering as before, gives the
  same result as the first and issues the request anew. The table returned has the
  rows of the table read, in their order and under their labels, cut down to the three
  columns.
\<close>

theorem search_idempotent:
  "fst (search ext args (snd (search ext args s))) = fst (search ext args s)
   \<and> snd (search ext args s)
       = s\<lparr>events := events s @ [Urlopen (get_search_url ext (client s) ''csv'' args)]\<rparr>
   \<and> events (snd (search ext args (snd (search ext args s))))
       = events s @ [Urlopen (get_search_url ext (client s) ''csv'' args),
                      Urlopen (get_search_url ext (client s) ''csv'' args)]
   \<and> (client s' = client s \<longrightarrow> fst (search ext args s') = fst (search ext args s))
   \<and> (urlopen ext (get_search_url ext (client s) ''csv'' args) = Inr body \<longrightarrow>
      read_csv ext body [] = Inr t \<longrightarrow>
      fst (search ext args s) = Inr df \<longrightarrow>
        columns df = [''Institution'', ''Dataset ID'', ''tabledap'']
        \<and> index df = index t
        \<and> length (rows df) = length (rows t)
        \<and> (\<exists>i j k. column_pos (columns t) ''Institution'' = Some i
              \<and> column_pos (columns t) ''Dataset ID'' = Some j
              \<and> column_pos (columns t) ''tabledap'' = Some k
              \<and> rows df = map (\<lambda>r. [nth_cell r i, nth_cell r j, nth_cell r k]) (rows t)))"
proof (intro conjI impI)
  show "fst (search ext args (snd (search ext args s))) = fst (search ext args s)"
    by (simp add: search_fst search_snd)
  show "snd (search ext args s)
       = s\<lparr>events := events s @ [Urlopen (get_search_url ext (client s) ''csv'' args)]\<rparr>"
    by (rule search_snd)
  show "events (snd (search ext args (snd (search ext args s))))
       = events s @ [Urlopen (get_search_url ext (client s) ''csv'' args),
                      Urlopen (get_search_url ext (client s) ''csv'' args)]"
    by (simp add: search_snd)
next
  assume "client s' = client s"
  then show "fst (search ext args s') = fst (search ext args s)"
    by (simp add: search_fst)
next
  assume u: "urlopen ext (get_search_url ext (client s) ''csv'' args) = Inr body"
    and r: "read_csv ext body [] = Inr t"
    and f: "fst (search ext args s) = Inr df"
  from u r f have g: "getitem_cols t [''Institution'', ''Dataset ID'', ''tabledap''] = Inr df"
    by (simp add: search_fst bindE_def)
  then obtain i j k where p: "column_pos (columns t) ''Institution'' = Some i"
      "column_pos (columns t) ''Dataset ID'' = Some j"
      "column_pos (columns t) ''tabledap'' = Some k"
    by (auto simp: getitem_cols_def bindE_def split: option.splits)
  with g have df: "df = \<lparr>columns = [''Institution'', ''Dataset ID'', ''tabledap''], index = index t,
                         rows = map (\<lambda>r. [nth_cell r i, nth_cell r j, nth_cell r k]) (rows t)\<rparr>"
    by (simp add: getitem_cols_def bindE_def)
  from df show "columns df = [''Institution'', ''Dataset ID'', ''tabledap'']"
    and "index df = index t" and "length (rows df) = length (rows t)"
    by simp_all
  from p df show "\<exists>i j k. column_pos (columns t) ''Institution'' = Some i
              \<and> column_pos (columns t) ''Dataset ID'' = Some j
              \<and> column_pos (columns t) ''tabledap'' = Some k
              \<and> rows df = map (\<lambda>r. [nth_cell r i, nth_cell r j, nth_cell r k]) (rows t)"
    by simp
qed

theorem search_idempotent_witness:
  "fst (search (mock (web_const catalog) abc_matches (\<lambda>d. True) (\<lambda>d. True)) [] blank)
     = Inr \<lparr>columns = [''Institution'', ''Dataset ID'', ''tabledap''], index = [0, 1, 2],
            rows = [[Str ''OOI'', Str ''ooi-a-ctdbp1'', Str ''http://e/tabledap/ooi-a-ctdbp1''],
                    [Str ''OOI'', Str ''ooi-b-flort'', Str ''http://e/tabledap/ooi-b-flort''],
                    [Str ''OOI'', Str ''ooi-c-ctdbp2'', Str ''http://e/tabledap/ooi-c-ctdbp2'']]\<rparr>
   \<and> fst (search (mock (web_const catalog) abc_matches (\<lambda>d. True) (\<lambda>d. True)) []
           (snd (search (mock (web_const catalog) abc_matches (\<lambda>d. True) (\<lambda>d. True)) [] blank)))
     = fst (search (mock (web_const catalog) abc_matches (\<lambda>d. True) (\<lambda>d. True)) [] blank)
   \<and> fst (search (mock (web_const catalog) abc_matches (\<lambda>d. True) (\<lambda>d. True)) []
           (blank\<lparr>df_list := [(''A'', [])]\<rparr>))
     = fst (search (mock (web_const catalog) abc_matches (\<lambda>d. True) (\<lambda>d. True)) [] blank)
   \<and> length (rows catalog) = 3"
proof -
  let ?m = "mock (web_const catalog) abc_matches (\<lambda>d. True) (\<lambda>d. True)"
  let ?df = "\<lparr>columns = [''Institution'', ''Dataset ID'', ''tabledap''], index = [0, 1, 2],
            rows = [[Str ''OOI'', Str ''ooi-a-ctdbp1'', Str ''http://e/tabledap/ooi-a-ctdbp1''],
                    [Str ''OOI'', Str ''ooi-b-flort'', Str ''http://e/tabledap/ooi-b-flort''],
                    [Str ''OOI'', Str ''ooi-c-ctdbp2'', Str ''http://e/tabledap/ooi-c-ctdbp2'']]\<rparr>"
  have u: "urlopen ?m (get_search_url ?m (client blank) ''csv'' []) = Inr catalog"
    by (simp add: mock_def web_const_def)
  have r: "read_csv ?m catalog [] = Inr catalog"
    by (simp add: mock_def catalog_def)
  have f: "fst (search ?m [] blank) = Inr ?df"
    by (simp add: search_fst u r bindE_def) (simp add: getitem_cols_def bindE_def nth_cell_def catalog_def)
  have c: "client (blank\<lparr>df_list := [(''A'', [])]\<rparr>) = client blank" by simp
  note t = search_idempotent [where ext = ?m and args = "[]" and s = blank
      and s' = "blank\<lparr>df_list := [(''A'', [])]\<rparr>" and body = catalog and t = catalog and df = ?df]
  from t have "fst (search ?m [] (snd (search ?m [] blank))) = fst (search ?m [] blank)"
    by blast
  moreover from t c have "fst (search ?m [] (blank\<lparr>df_list := [(''A'', [])]\<rparr>)) = fst (search ?m [] blank)"
    by blast
  moreover from t u r f have "index ?df = index catalog \<and> length (rows ?df) = length (rows catalog)"
    by blast
  then have "length (rows catalog) = 3" by simp
  ultimately show ?thesis using f by blast
qed


text \<open>
  C7. \<open>alllonlat\<close>, given a client, a category and the bounds of a time window, prints
  and requests one URL: the server of the client, the \<^verbatim>\<open>allDatasets\<close> table with the
  columns \<^verbatim>\<open>datasetID\<close>, \<^verbatim>\<open>minLongitude\<close> and \<^verbatim>\<open>minLatitude\<close>, the category, and the
  two conditions of an overlap with the window (\<^verbatim>\<open>minTime\<close> at most the upper bound,
  \<^verbatim>\<open>maxTime\<close> at least the lower bound). It changes nothing else. When the request
  or the reading of its answer raises, so does \<open>alllonlat\<close>; otherwise it returns the
  table as read, one row for each dataset the service listed for that query.
\<close>

theorem alllonlat_one_request:
  "alllonlat_url srv cdm t0 t1
     = srv @ ''/tabledap/allDatasets.csv?'' @ ''datasetID%2CminLongitude%2CminLatitude''
           @ ''&cdm_data_type=%22'' @ cdm @ ''%22''
           @ ''&minTime%3C='' @ t1 @ ''&maxTime%3E='' @ t0
   \<and> snd (alllonlat ext e cdm t0 t1 s)
       = s\<lparr>stdout := stdout s @ [PStr (alllonlat_url (server e) cdm t0 t1)],
            events := events s @ [Urlopen (alllonlat_url (server e) cdm t0 t1)]\<rparr>
   \<and> (urlopen ext (alllonlat_url (server e) cdm t0 t1) = Inl err \<longrightarrow>
        fst (alllonlat ext e cdm t0 t1 s) = Inl err)
   \<and> (urlopen ext (alllonlat_url (server e) cdm t0 t1) = Inr body \<longrightarrow>
        read_csv ext body [1] = Inl err \<longrightarrow>
        fst (alllonlat ext e cdm t0 t1 s) = Inl err)
   \<and> (urlopen ext (alllonlat_url (server e) cdm t0 t1) = Inr body \<longrightarrow>
        read_csv ext body [1] = Inr df \<longrightarrow>
        fst (alllonlat ext e cdm t0 t1 s) = Inr df)"
  by (simp add: alllonlat_url_def alllonlat_def bindE_def Let_def)

theorem alllonlat_one_request_witness:
  "fst (alllonlat (mock (web_const lonlat) abc_matches (\<lambda>d. True) (\<lambda>d. True)) (client blank) ''TimeSeries'' ''t0'' ''t1'' blank)
     = Inr lonlat
   \<and> fst (alllonlat (mock no_web abc_matches (\<lambda>d. True) (\<lambda>d. True)) (client blank) ''TimeSeries'' ''t0'' ''t1'' blank)
     = Inl HTTPError
   \<and> fst (alllonlat (mock (web_const \<lparr>columns = [], index = [], rows = []\<rparr>) abc_matches (\<lambda>d. True) (\<lambda>d. True))
           (client blank) ''TimeSeries'' ''t0'' ''t1'' blank)
     = Inl ParserError
   \<and> events (snd (alllonlat (mock no_web abc_matches (\<lambda>d. True) (\<lambda>d. True)) (client blank) ''TimeSeries'' ''t0'' ''t1'' blank))
     = [Urlopen ''srv/tabledap/allDatasets.csv?datasetID%2CminLongitude%2CminLatitude&cdm_data_type=%22TimeSeries%22&minTime%3C=t1&maxTime%3E=t0'']"
proof -
  let ?m1 = "mock (web_const lonlat) abc_matches (\<lambda>d. True) (\<lambda>d. True)"
  let ?m2 = "mock no_web abc_matches (\<lambda>d. True) (\<lambda>d. True)"
  let ?m3 = "mock (web_const \<lparr>columns = [], index = [], rows = []\<rparr>) abc_matches (\<lambda>d. True) (\<lambda>d. True)"
  let ?u = "alllonlat_url (server (client blank)) ''TimeSeries'' ''t0'' ''t1''"
  have u1: "urlopen ?m1 ?u = Inr lonlat" by (simp add: mock_def web_const_def)
  have r1: "read_csv ?m1 lonlat [1] = Inr lonlat" by (simp add: mock_def lonlat_def)
  have u2: "urlopen ?m2 ?u = Inl HTTPError" by (simp add: mock_def no_web_def)
  have u3: "urlopen ?m3 ?u = Inr \<lparr>columns = [], index = [], rows = []\<rparr>" by (simp add: mock_def web_const_def)
  have r3: "read_csv ?m3 \<lparr>columns = [], index = [], rows = []\<rparr> [1] = Inl ParserError" by (simp add: mock_def)
  note t1 = alllonlat_one_request [where ext = ?m1 and e = "client blank" and cdm = "''TimeSeries''"
      and ?t0.0 = "''t0''" and ?t1.0 = "''t1''" and s = blank and body = lonlat and df = lonlat]
  note t2 = alllonlat_one_request [where ext = ?m2 and e = "client blank" and cdm = "''TimeSeries''"
      and ?t0.0 = "''t0''" and ?t1.0 = "''t1''" and s = blank and err = HTTPError]
  note t3 = alllonlat_one_request [where ext = ?m3 and e = "client blank" and cdm = "''TimeSeries''"
      and ?t0.0 = "''t0''" and ?t1.0 = "''t1''" and s = blank
      and body = "\<lparr>columns = [], index = [], rows = []\<rparr>" and err = ParserError]
  from t1 u1 r1 have "fst (alllonlat ?m1 (client blank) ''TimeSeries'' ''t0'' ''t1'' blank) = Inr lonlat"
    by blast
  moreover from t2 u2 have "fst (alllonlat ?m2 (client blank) ''TimeSeries'' ''t0'' ''t1'' blank) = Inl HTTPError"
    by blast
  moreover from t3 u3 r3 have "fst (alllonlat ?m3 (client blank) ''TimeSeries'' ''t0'' ''t1'' blank) = Inl ParserError"
    by blast
  moreover from t2 have "snd (alllonlat ?m2 (client blank) ''TimeSeries'' ''t0'' ''t1'' blank)
       = blank\<lparr>stdout := stdout blank @ [PStr ?u], events := events blank @ [Urlopen ?u]\<rparr>"
    by blast
  then have "events (snd (alllonlat ?m2 (client blank) ''TimeSeries'' ''t0'' ''t1'' blank))
     = [Urlopen ''srv/tabledap/allDatasets.csv?datasetID%2CminLongitude%2CminLatitude&cdm_data_type=%22TimeSeries%22&minTime%3C=t1&maxTime%3E=t0'']"
    by (simp add: alllonlat_url_def blank_def ERDDAP_init_def)
  ultimately show ?thesis by blast
qed


subsection \<open>The identifiers the loop runs over\<close>

lemma zip_map_same:
  "(b, j, r) \<in> set (zip (map f rs) (zip js rs)) \<Longrightarrow> b = f r \<and> r \<in> set rs"
proof (induction rs arbitrary: js)
  case Nil
  then show ?case by simp
next
  case (Cons a rs)
  then show ?case by (cases js) auto
qed

lemma getitem_mask_rows:
  assumes "getitem_mask df (map f (rows df)) = Inr df'"
  shows "columns df' = columns df"
    and "length (index df') = length (rows df')"
    and "\<forall>r \<in> set (rows df'). r \<in> set (rows df) \<and> f r = Some True"
proof -
  let ?keep = "filter (\<lambda>(b, x). b = Some True) (zip (map f (rows df)) (zip (index df) (rows df)))"
  from assms have df': "df' = \<lparr>columns = columns df, index = map (fst \<circ> snd) ?keep,
                                 rows = map (snd \<circ> snd) ?keep\<rparr>"
    by (simp add: getitem_mask_def Let_def split: if_splits)
  from df' show "columns df' = columns df" by simp
  from df' show "length (index df') = length (rows df')" by simp
  show "\<forall>r \<in> set (rows df'). r \<in> set (rows df) \<and> f r = Some True"
  proof
    fix r assume "r \<in> set (rows df')"
    with df' obtain b j where m: "(b, j, r) \<in> set ?keep" by force
    then have "b = Some True" and "(b, j, r) \<in> set (zip (map f (rows df)) (zip (index df) (rows df)))"
      by auto
    with zip_map_same [of b j r f "rows df" "index df"]
    show "r \<in> set (rows df) \<and> f r = Some True" by simp
  qed
qed

lemma map2_Cons_column:
  "length js = length rs \<Longrightarrow>
     map (\<lambda>r. nth_cell r (Suc i)) (map2 (\<lambda>j r. c j # r) js rs) = map (\<lambda>r. nth_cell r i) rs"
  by (induction js rs rule: list_induct2) (simp_all add: nth_cell_def)

lemma reset_index_column:
  assumes "reset_index df = Inr df'" and "length (index df) = length (rows df)"
    and "column_pos (columns df) name = Some i"
    and "name \<noteq> ''index''" and "name \<noteq> ''level_0''"
  shows "getitem_col df' name = Inr (map (\<lambda>r. nth_cell r i) (rows df))"
proof -
  let ?new = "if ''index'' \<in> set (columns df) then ''level_0'' else ''index''"
  from assms(1) have df': "df' = \<lparr>columns = ?new # columns df,
      index = map int [0 ..< length (rows df)],
      rows = map2 (\<lambda>j r. Num (of_int j) # r) (index df) (rows df)\<rparr>"
    by (simp add: reset_index_def Let_def split: if_splits)
  from assms(4,5) have "?new \<noteq> name" by auto
  with assms(3) have pos: "column_pos (columns df') name = Some (Suc i)"
    by (simp add: df')
  have rws: "rows df' = map2 (\<lambda>j r. Num (of_int j) # r) (index df) (rows df)"
    by (simp add: df')
  have "map (\<lambda>r. nth_cell r (Suc i)) (rows df') = map (\<lambda>r. nth_cell r i) (rows df)"
    unfolding rws by (rule map2_Cons_column [OF assms(2)])
  with pos show ?thesis
    by (simp add: getitem_col_def)
qed

lemma ctdbp_flag_True:
  "ctdbp_flag i r = Some True \<Longrightarrow> \<exists>x. nth_cell r i = Str x \<and> contains x ''ctdbp''"
  by (cases "nth_cell r i") (simp_all add: ctdbp_flag_def)

lemma select_ctdbp_column:
  assumes "select_ctdbp search_df = Inr ctdbp"
  shows "\<exists>i rs. column_pos (columns search_df) ''Dataset ID'' = Some i
           \<and> getitem_col search_df ''Dataset ID'' = Inr (map (\<lambda>r. nth_cell r i) (rows search_df))
           \<and> getitem_col ctdbp ''Dataset ID'' = Inr (map (\<lambda>r. nth_cell r i) rs)
           \<and> (\<forall>r \<in> set rs. r \<in> set (rows search_df) \<and> ctdbp_flag i r = Some True)"
proof -
  from assms obtain i where i: "column_pos (columns search_df) ''Dataset ID'' = Some i"
    by (auto simp: select_ctdbp_def getitem_col_def bindE_def split: option.splits)
  let ?col = "map (\<lambda>r. nth_cell r i) (rows search_df)"
  from i have col: "getitem_col search_df ''Dataset ID'' = Inr ?col"
    by (simp add: getitem_col_def)
  have flags: "str_contains ?col ''ctdbp'' = Inl AttributeError
             \<or> str_contains ?col ''ctdbp'' = Inr (map (ctdbp_flag i) (rows search_df))"
    by (simp add: str_contains_def ctdbp_flag_def comp_def)
  from assms col
  have "bindE (str_contains ?col ''ctdbp'') (\<lambda>cond. bindE (getitem_mask search_df cond) reset_index)
          = Inr ctdbp"
    by (simp add: select_ctdbp_def bindE_def)
  with flags have "bindE (getitem_mask search_df (map (ctdbp_flag i) (rows search_df))) reset_index = Inr ctdbp"
    by (auto simp: bindE_def)
  then obtain df1 where m: "getitem_mask search_df (map (ctdbp_flag i) (rows search_df)) = Inr df1"
    and r: "reset_index df1 = Inr ctdbp"
    by (auto simp: bindE_def split: sum.splits)
  note g = getitem_mask_rows [OF m]
  from i g(1) have "column_pos (columns df1) ''Dataset ID'' = Some i" by simp
  from reset_index_column [OF r g(2) this]
  have "getitem_col ctdbp ''Dataset ID'' = Inr (map (\<lambda>r. nth_cell r i) (rows df1))" by simp
  with i col g(3) show ?thesis by blast
qed

lemma strings_of_Str: "\<forall>c \<in> set col. \<exists>x. c = Str x \<Longrightarrow> map Str (strings_of col) = col"
  by (induction col) (auto simp: strings_of_def)

lemma set_map_filter: "x \<in> set (List.map_filter f xs) \<Longrightarrow> \<exists>d \<in> set xs. f d = Some x"
  by (auto simp: List.map_filter_def)

lemma processed_subset: "set (processed ext tag c ids) \<subseteq> set ids"
  by (induction ids) auto

lemma fetchAll_df_list_origin:
  assumes "x \<in> set (df_list (snd (fetchAll ext tag ids s)))"
  shows "\<exists>d \<in> set ids. \<exists>v. to_xarray ext (client_for (client s) d v) = Inr x"
proof -
  from assms set_map_filter obtain d where d: "d \<in> set (processed ext tag (client s) ids)"
    and s: "series_of ext tag (client s) d = Some x"
    unfolding fetchAll_df_list by fast
  from s obtain v where "to_xarray ext (client_for (client s) d v) = Inr x"
    by (auto simp: series_of_def split: sum.splits)
  with d processed_subset show ?thesis by fast
qed

lemma fetchAll_hv_list_origin:
  assumes "p \<in> set (hv_list (snd (fetchAll ext tag ids s)))"
  shows "\<exists>d \<in> set ids. \<exists>v x. hvplot ext x v d = Inr p"
proof -
  from assms set_map_filter obtain d where d: "d \<in> set (processed ext tag (client s) ids)"
    and s: "plot_of ext tag (client s) d = Some p"
    unfolding fetchAll_hv_list by fast
  from s obtain v x where "hvplot ext x v d = Inr p"
    by (auto simp: plot_of_def split: sum.splits)
  with d processed_subset show ?thesis by fast
qed

lemma fetchAll_events_origin:
  assumes "ev \<in> set (events (snd (fetchAll ext tag ids s)))"
  shows "ev \<in> set (events s)
       \<or> (\<exists>d \<in> set ids. ev = Get_var_by_attr (server (client s)) d tag
             \<or> (\<exists>v. ev = To_xarray (client_for (client s) d v)))"
proof (cases "ev \<in> set (events s)")
  case True
  then show ?thesis by simp
next
  case False
  with assms obtain d where d: "d \<in> set (processed ext tag (client s) ids)"
    and e: "ev \<in> set (requests_of ext tag (client s) d)"
    unfolding fetchAll_events by auto
  from e have "ev = Get_var_by_attr (server (client s)) d tag
             \<or> (\<exists>v. ev = To_xarray (client_for (client s) d v))"
    by (auto simp: requests_of_def split: sum.splits)
  with d processed_subset show ?thesis by fast
qed

text \<open>
  C5. Let the table of the search be \<open>search_df\<close>, with the identifiers \<open>all_ids\<close> in
  its column \<^verbatim>\<open>Dataset ID\<close>, and let \<open>ctdbp\<close> be the table filtered from it. The loop runs
  over the identifiers of \<open>ctdbp\<close>, which are strings containing \<^verbatim>\<open>ctdbp\<close> and are among
  \<open>all_ids\<close>. Every series in \<open>df_list\<close> after the loop is the answer to a data
  request of a client whose \<open>dataset_id\<close> is one of \<open>all_ids\<close>; every plot in
  \<open>hv_list\<close> is labelled with one of them; and every request the loop issued names one
  of them.
\<close>

theorem series_identifiers_from_search:
  assumes "select_ctdbp search_df = Inr ctdbp"
    and "getitem_col search_df ''Dataset ID'' = Inr all_ids"
  shows "(\<exists>col. getitem_col ctdbp ''Dataset ID'' = Inr col
            \<and> map Str (strings_of col) = col
            \<and> set col \<subseteq> set all_ids
            \<and> (\<forall>d \<in> set (strings_of col). contains d ''ctdbp'')
            \<and> fetch_cell ext tag ctdbp s = fetchAll ext tag (strings_of col) s)
    \<and> (\<forall>x \<in> set (df_list (snd (fetch_cell ext tag ctdbp s))).
          \<exists>d v. Str d \<in> set all_ids
             \<and> dataset_id (client_for (client s) d v) = Some d
             \<and> to_xarray ext (client_for (client s) d v) = Inr x)
    \<and> (\<forall>p \<in> set (hv_list (snd (fetch_cell ext tag ctdbp s))).
          \<exists>d v x. Str d \<in> set all_ids \<and> hvplot ext x v d = Inr p)
    \<and> (\<forall>ev \<in> set (events (snd (fetch_cell ext tag ctdbp s))).
          ev \<in> set (events s)
          \<or> (\<exists>d. Str d \<in> set all_ids
                \<and> (ev = Get_var_by_attr (server (client s)) d tag
                    \<or> (\<exists>c. ev = To_xarray c \<and> dataset_id c = Some d))))"
proof -
  from select_ctdbp_column [OF assms(1)] obtain i rs
    where i: "column_pos (columns search_df) ''Dataset ID'' = Some i"
      and all: "getitem_col search_df ''Dataset ID'' = Inr (map (\<lambda>r. nth_cell r i) (rows search_df))"
      and col: "getitem_col ctdbp ''Dataset ID'' = Inr (map (\<lambda>r. nth_cell r i) rs)"
      and rs: "\<forall>r \<in> set rs. r \<in> set (rows search_df) \<and> ctdbp_flag i r = Some True"
    by blast
  let ?col = "map (\<lambda>r. nth_cell r i) rs"
  let ?ids = "strings_of ?col"
  from all assms(2) have all_ids: "all_ids = map (\<lambda>r. nth_cell r i) (rows search_df)" by simp
  have str: "\<forall>c \<in> set ?col. \<exists>x. c = Str x \<and> contains x ''ctdbp''"
    using rs ctdbp_flag_True by fastforce
  then have strs: "map Str ?ids = ?col"
    by (intro strings_of_Str) blast
  have sub: "set ?col \<subseteq> set all_ids"
    using rs by (auto simp: all_ids)
  have ids_in: "\<forall>d \<in> set ?ids. Str d \<in> set all_ids \<and> contains d ''ctdbp''"
  proof
    fix d assume "d \<in> set ?ids"
    then have "Str d \<in> set (map Str ?ids)" by simp
    then have "Str d \<in> set ?col" by (simp only: strs)
    with str sub show "Str d \<in> set all_ids \<and> contains d ''ctdbp''" by auto
  qed
  have cell: "fetch_cell ext tag ctdbp s = fetchAll ext tag ?ids s"
    by (simp add: fetch_cell_def fetchAll_def col Let_def)
  have one: "\<exists>col. getitem_col ctdbp ''Dataset ID'' = Inr col
            \<and> map Str (strings_of col) = col
            \<and> set col \<subseteq> set all_ids
            \<and> (\<forall>d \<in> set (strings_of col). contains d ''ctdbp'')
            \<and> fetch_cell ext tag ctdbp s = fetchAll ext tag (strings_of col) s"
    using col strs sub ids_in cell by blast
  have two: "\<forall>x \<in> set (df_list (snd (fetch_cell ext tag ctdbp s))).
          \<exists>d v. Str d \<in> set all_ids
             \<and> dataset_id (client_for (client s) d v) = Some d
             \<and> to_xarray ext (client_for (client s) d v) = Inr x"
  proof
    fix x assume "x \<in> set (df_list (snd (fetch_cell ext tag ctdbp s)))"
    then have "x \<in> set (df_list (snd (fetchAll ext tag ?ids s)))" by (simp only: cell)
    from fetchAll_df_list_origin [OF this] obtain d v
      where "d \<in> set ?ids" and "to_xarray ext (client_for (client s) d v) = Inr x" by blast
    moreover have "dataset_id (client_for (client s) d v) = Some d" by (simp add: client_for_def)
    ultimately show "\<exists>d v. Str d \<in> set all_ids
             \<and> dataset_id (client_for (client s) d v) = Some d
             \<and> to_xarray ext (client_for (client s) d v) = Inr x"
      using ids_in by blast
  qed
  have three: "\<forall>p \<in> set (hv_list (snd (fetch_cell ext tag ctdbp s))).
          \<exists>d v x. Str d \<in> set all_ids \<and> hvplot ext x v d = Inr p"
  proof
    fix p assume "p \<in> set (hv_list (snd (fetch_cell ext tag ctdbp s)))"
    then have "p \<in> set (hv_list (snd (fetchAll ext tag ?ids s)))" by (simp only: cell)
    from fetchAll_hv_list_origin [OF this] ids_in
    show "\<exists>d v x. Str d \<in> set all_ids \<and> hvplot ext x v d = Inr p" by blast
  qed
  have four: "\<forall>ev \<in> set (events (snd (fetch_cell ext tag ctdbp s))).
          ev \<in> set (events s)
          \<or> (\<exists>d. Str d \<in> set all_ids
                \<and> (ev = Get_var_by_attr (server (client s)) d tag
                    \<or> (\<exists>c. ev = To_xarray c \<and> dataset_id c = Some d)))"
  proof
    fix ev assume "ev \<in> set (events (snd (fetch_cell ext tag ctdbp s)))"
    then have "ev \<in> set (events (snd (fetchAll ext tag ?ids s)))" by (simp only: cell)
    from fetchAll_events_origin [OF this]
    consider "ev \<in> set (events s)"
      | d where "d \<in> set ?ids" "ev = Get_var_by_attr (server (client s)) d tag"
      | d v where "d \<in> set ?ids" "ev = To_xarray (client_for (client s) d v)"
      by blast
    then show "ev \<in> set (events s)
          \<or> (\<exists>d. Str d \<in> set all_ids
                \<and> (ev = Get_var_by_attr (server (client s)) d tag
                    \<or> (\<exists>c. ev = To_xarray c \<and> dataset_id c = Some d)))"
    proof cases
      case 1
      then show ?thesis by simp
    next
      case 2
      with ids_in show ?thesis by blast
    next
      case 3
      have "dataset_id (client_for (client s) d v) = Some d" by (simp add: client_for_def)
      with 3 ids_in show ?thesis by blast
    qed
  qed
  from one two three four show ?thesis by blast
qed


theorem series_identifiers_from_search_witness:
  "select_ctdbp catalog
     = Inr \<lparr>columns = [''index'', ''tabledap'', ''Title'', ''Institution'', ''Dataset ID''],
            index = [0, 1],
            rows = [[Num 0, Str ''http://e/tabledap/ooi-a-ctdbp1'', Str ''CTD A'', Str ''OOI'', Str ''ooi-a-ctdbp1''],
                    [Num 2, Str ''http://e/tabledap/ooi-c-ctdbp2'', Str ''CTD C'', Str ''OOI'', Str ''ooi-c-ctdbp2'']]\<rparr>
   \<and> getitem_col catalog ''Dataset ID'' = Inr [Str ''ooi-a-ctdbp1'', Str ''ooi-b-flort'', Str ''ooi-c-ctdbp2'']
   \<and> fetch_cell (mock no_web ooi_matches (\<lambda>d. True) (\<lambda>d. True)) ''tag''
        \<lparr>columns = [''index'', ''tabledap'', ''Title'', ''Institution'', ''Dataset ID''],
         index = [0, 1],
         rows = [[Num 0, Str ''http://e/tabledap/ooi-a-ctdbp1'', Str ''CTD A'', Str ''OOI'', Str ''ooi-a-ctdbp1''],
                 [Num 2, Str ''http://e/tabledap/ooi-c-ctdbp2'', Str ''CTD C'', Str ''OOI'', Str ''ooi-c-ctdbp2'']]\<rparr>
        blank
     = fetchAll (mock no_web ooi_matches (\<lambda>d. True) (\<lambda>d. True)) ''tag'' [''ooi-a-ctdbp1'', ''ooi-c-ctdbp2''] blank
   \<and> df_list (snd (fetchAll (mock no_web ooi_matches (\<lambda>d. True) (\<lambda>d. True)) ''tag'' [''ooi-a-ctdbp1'', ''ooi-c-ctdbp2''] blank))
     = [(''ooi-a-ctdbp1'', [''time'', ''sea_water_practical_salinity'']),
        (''ooi-c-ctdbp2'', [''time'', ''sea_water_practical_salinity''])]"
proof -
  let ?m = "mock no_web ooi_matches (\<lambda>d. True) (\<lambda>d. True)"
  let ?t = "\<lparr>columns = [''index'', ''tabledap'', ''Title'', ''Institution'', ''Dataset ID''],
            index = [0, 1],
            rows = [[Num 0, Str ''http://e/tabledap/ooi-a-ctdbp1'', Str ''CTD A'', Str ''OOI'', Str ''ooi-a-ctdbp1''],
                    [Num 2, Str ''http://e/tabledap/ooi-c-ctdbp2'', Str ''CTD C'', Str ''OOI'', Str ''ooi-c-ctdbp2'']]\<rparr>"
  have ids: "getitem_col catalog ''Dataset ID'' = Inr [Str ''ooi-a-ctdbp1'', Str ''ooi-b-flort'', Str ''ooi-c-ctdbp2'']"
    by (simp add: getitem_col_def catalog_def nth_cell_def)
  have flags: "str_contains [Str ''ooi-a-ctdbp1'', Str ''ooi-b-flort'', Str ''ooi-c-ctdbp2''] ''ctdbp''
             = Inr [Some True, Some False, Some True]"
    by (simp add: str_contains_def)
  have sel: "select_ctdbp catalog = Inr ?t"
    by (simp add: select_ctdbp_def ids flags bindE_def)
       (simp add: getitem_mask_def reset_index_def catalog_def Let_def)
  have col: "getitem_col ?t ''Dataset ID'' = Inr [Str ''ooi-a-ctdbp1'', Str ''ooi-c-ctdbp2'']"
    by (simp add: getitem_col_def nth_cell_def)
  from series_identifiers_from_search [OF sel ids, of ?m "''tag''" blank]
  obtain col' where "getitem_col ?t ''Dataset ID'' = Inr col'"
    and "fetch_cell ?m ''tag'' ?t blank = fetchAll ?m ''tag'' (strings_of col') blank"
    by blast
  with col have "fetch_cell ?m ''tag'' ?t blank = fetchAll ?m ''tag'' [''ooi-a-ctdbp1'', ''ooi-c-ctdbp2''] blank"
    by (simp add: strings_of_def)
  moreover have "df_list (snd (fetchAll ?m ''tag'' [''ooi-a-ctdbp1'', ''ooi-c-ctdbp2''] blank))
     = [(''ooi-a-ctdbp1'', [''time'', ''sea_water_practical_salinity'']),
        (''ooi-c-ctdbp2'', [''time'', ''sea_water_practical_salinity''])]"
    by (simp add: fetchAll_def loop_body_def try_fetch_def resolve_variable_def last_variable_def
        bindE_def mock_def ooi_matches_def blank_def ERDDAP_init_def Let_def)
  ultimately show ?thesis using sel ids by blast
qed


subsection \<open>A run of the OOI part\<close>

text \<open>
  The cells run from top to bottom against the catalogue of three datasets, with the
  data request for \<^verbatim>\<open>ooi-c-ctdbp2\<close> failing: the run ends normally, the loop has
  collected the one series it could fetch, and the lines printed are the download URL,
  the number of CTDBP datasets, the \<^verbatim>\<open>allDatasets\<close> URL and the identifier fetched.
\<close>

lemma run_ooi_example:
  "fst (run_ooi (mock web_ooi ooi_matches (\<lambda>d. d \<noteq> ''ooi-c-ctdbp2'') (\<lambda>d. True))) = Inr ()
   \<and> df_list (snd (run_ooi (mock web_ooi ooi_matches (\<lambda>d. d \<noteq> ''ooi-c-ctdbp2'') (\<lambda>d. True))))
       = [(''ooi-a-ctdbp1'', [''time'', ''sea_water_practical_salinity''])]
   \<and> stdout (snd (run_ooi (mock web_ooi ooi_matches (\<lambda>d. d \<noteq> ''ooi-c-ctdbp2'') (\<lambda>d. True))))
       = [PStr (ooi_server @ ''/tabledap/ooi-ce01issm-sbd17-06-ctdbpc000.csv''), PInt 2,
          PStr (alllonlat_url ooi_server ''TimeSeries'' min_time max_time), PStr ''ooi-a-ctdbp1'']"
  by (simp add: run_ooi_def then_do_def lift_def search_all_def search_def read_one_def ctdbp_cell_def
      select_ctdbp_def alllonlat_def matching_rows_def fetch_cell_def
      getitem_col_def getitem_cols_def getitem_mask_def reset_index_def str_contains_def isin_def nth_cell_def
      strings_of_def loop_body_def try_fetch_def resolve_variable_def last_variable_def
      bindE_def mock_def web_ooi_def ooi_matches_def catalog_def lonlat_def start_def ERDDAP_init_def
      alllonlat_url_def ooi_server_def kw_def standard_name_def min_time_def max_time_def Let_def)

end
